theory Spec2Isabelle
  imports Main "HOL-Library.Char_ord" "HOL-Library.List_Lexorder" "HOL-Library.Multiset"
begin

section \<open>S4: a terminal browser for S3 buckets\<close>

text \<open>
  A shallow embedding of the Go sources of s4: the S3 client wrapper (\<open>s3client.go\<close>)
  and the bubbletea model of the user interface (the complete variant with rename, yank,
  paste, confirmation dialogs and directory statistics, and, for the one key whose
  meaning changed, the older variant of \<open>updateBrowser\<close>).

  Conventions.
  \<^item> A Go \<open>string\<close> is a byte sequence: \<open>string\<close>, with \<open><\<close> the bytewise
    lexicographic order Go uses.
  \<^item> A Go \<open>int\<close> is modelled as \<open>int\<close>: the integers of the program are list
    lengths, list indices, terminal sizes and a name counter bounded by a list length,
    all far below \<open>2^63\<close>.
  \<^item> A Go \<open>error\<close> of the S3 client is its message, \<open>string option\<close>, \<open>None\<close>
    for \<open>nil\<close>; \<open>fmt.Errorf("...: %w", err)\<close> prepends to the message.
  \<^item> A runtime panic (index or slice bound out of range) is the result \<open>None\<close> of
    the function in which it happens.
  \<^item> The remote store and the local file system are outside the program. They are a
    parameter \<open>backend\<close>: for each primitive a function from the calls made so far
    and the arguments of the call to its response. A function of the program that
    calls a primitive takes the trace of calls and returns it extended.
\<close>

section \<open>Strings\<close>

definition HasSuffix :: "string \<Rightarrow> string \<Rightarrow> bool" where
  "HasSuffix s suffix =
     (length suffix \<le> length s \<and> drop (length s - length suffix) s = suffix)"

definition HasPrefix :: "string \<Rightarrow> string \<Rightarrow> bool" where
  "HasPrefix s p = (take (length p) s = p)"

definition TrimSuffix :: "string \<Rightarrow> string \<Rightarrow> string" where
  "TrimSuffix s suffix =
     (if HasSuffix s suffix then take (length s - length suffix) s else s)"

text \<open>\<open>strings.Contains(s, substr)\<close>: some suffix of \<open>s\<close> starts with \<open>substr\<close>.\<close>

fun Contains :: "string \<Rightarrow> string \<Rightarrow> bool" where
  "Contains [] sub = (sub = [])"
| "Contains (c # cs) sub = (HasPrefix (c # cs) sub \<or> Contains cs sub)"

text \<open>
  \<open>strings.Split(s, sep)\<close> and \<open>strings.Join(parts, sep)\<close> for a separator of one
  byte, the only kind the program uses (\<open>"/"\<close> and \<open>"\\n"\<close>). Splitting the empty
  string gives one empty part.
\<close>

fun Split :: "string \<Rightarrow> char \<Rightarrow> string list" where
  "Split [] sep = [[]]"
| "Split (c # cs) sep =
     (if c = sep then [] # Split cs sep
      else (case Split cs sep of [] \<Rightarrow> [[c]] | p # ps \<Rightarrow> (c # p) # ps))"

fun Join :: "string list \<Rightarrow> string \<Rightarrow> string" where
  "Join [] sep = []"
| "Join [p] sep = p"
| "Join (p # q # ps) sep = p @ sep @ Join (q # ps) sep"

text \<open>The verb \<open>%d\<close> of \<open>fmt.Sprintf\<close>: decimal digits, with a sign when negative.\<close>

definition digit :: "nat \<Rightarrow> char" where
  "digit d = char_of (48 + d)"

fun digits :: "nat \<Rightarrow> string" where
  "digits n = (if n < 10 then [digit n] else digits (n div 10) @ [digit (n mod 10)])"

declare digits.simps [simp del]

definition Itoa :: "int \<Rightarrow> string" where
  "Itoa i = (if i < 0 then CHR ''-'' # digits (nat (- i)) else digits (nat i))"

section \<open>Paths (path/filepath on Unix) and runes\<close>

text \<open>
  The library functions the program calls, after their documentation. \<open>filepath.Base\<close>:
  the last element of the path, trailing slashes removed first; \<open>"."\<close> for the empty
  path and \<open>"/"\<close> for a path of slashes only.
\<close>

definition lastElement :: "string \<Rightarrow> string" where
  "lastElement path = rev (takeWhile (\<lambda>c. c \<noteq> CHR ''/'') (rev path))"

definition filepath_Base :: "string \<Rightarrow> string" where
  "filepath_Base path =
     (if path = [] then ''.''
      else let e = lastElement (rev (dropWhile (\<lambda>c. c = CHR ''/'') (rev path)))
           in if e = [] then ''/'' else e)"

text \<open>\<open>filepath.Ext\<close>: the suffix beginning at the final dot in the final element of
  the path; empty if there is no dot.\<close>

definition filepath_Ext :: "string \<Rightarrow> string" where
  "filepath_Ext path =
     (let e = lastElement path
      in if CHR ''.'' \<in> set e then CHR ''.'' # rev (takeWhile (\<lambda>c. c \<noteq> CHR ''.'') (rev e))
         else [])"

text \<open>\<open>filepath.Clean\<close>: empty and \<open>.\<close> elements are dropped, an inner \<open>..\<close>
  removes the element before it, a \<open>..\<close> at the start of a rooted path is dropped, and
  the empty result is \<open>"."\<close>.\<close>

fun cleanElems :: "bool \<Rightarrow> string list \<Rightarrow> string list \<Rightarrow> string list" where
  "cleanElems rooted out [] = rev out"
| "cleanElems rooted out (e # es) =
     (if e = [] \<or> e = ''.'' then cleanElems rooted out es
      else if e = ''..'' then
        (case out of
           [] \<Rightarrow> cleanElems rooted (if rooted then [] else [''..'']) es
         | e1 # below \<Rightarrow>
             if e1 = ''..'' then cleanElems rooted (''..'' # out) es
             else cleanElems rooted below es)
      else cleanElems rooted (e # out) es)"

definition filepath_Clean :: "string \<Rightarrow> string" where
  "filepath_Clean path =
     (let rooted = (path \<noteq> [] \<and> hd path = CHR ''/'');
          out = (if rooted then ''/'' else []) @ Join (cleanElems rooted [] (Split path CHR ''/'')) ''/''
      in if out = [] then ''.'' else out)"

definition filepath_Dir :: "string \<Rightarrow> string" where
  "filepath_Dir path = filepath_Clean (rev (dropWhile (\<lambda>c. c \<noteq> CHR ''/'') (rev path)))"

text \<open>\<open>filepath.Join\<close> of two elements.\<close>

definition filepath_Join :: "string \<Rightarrow> string \<Rightarrow> string" where
  "filepath_Join a b =
     (if a \<noteq> [] then filepath_Clean (a @ ''/'' @ b)
      else if b \<noteq> [] then filepath_Clean b
      else [])"

text \<open>\<open>utf8.RuneCountInString\<close> on valid UTF-8, which is what the preview holds
  (\<open>previewFileContent\<close> replaces anything else by a fixed text): the bytes that do not
  continue a rune.\<close>

definition RuneCountInString :: "string \<Rightarrow> int" where
  "RuneCountInString s =
     int (length (filter (\<lambda>c. \<not> (128 \<le> (of_char c :: nat) \<and> (of_char c :: nat) < 192)) s))"

section \<open>The remote store and the S3 client (s3client.go)\<close>

record S3Object =
  Key :: string
  Size :: int
  LastModified :: string
  IsDir :: bool

text \<open>
  What \<open>ListObjectsV2\<close> returns, as far as \<open>ListObjects\<close> reads it: the common
  prefixes, and for each object its key, its size and its modification time (here
  already in the layout \<open>2006-01-02 15:04:05\<close> that \<open>ListObjects\<close> formats it in).
\<close>

record ListOutput =
  CommonPrefixes :: "string list"
  Contents :: "(string \<times> int \<times> string) list"

text \<open>An entry of \<open>os.ReadDir\<close>: name, directory flag, and what \<open>Info()\<close> gives
  (an error or the size).\<close>

record DirEntry =
  entryName :: string
  entryIsDir :: bool
  entryInfo :: "string + int"

datatype call =
    ListObjectsV2Call string string
  | CopyObjectCall string string string
  | DeleteObjectCall string string
  | ReadDirCall string

record backend =
  sdkListObjectsV2 :: "call list \<Rightarrow> string \<Rightarrow> string \<Rightarrow> string + ListOutput"
  sdkCopyObject :: "call list \<Rightarrow> string \<Rightarrow> string \<Rightarrow> string \<Rightarrow> string option"
  sdkDeleteObject :: "call list \<Rightarrow> string \<Rightarrow> string \<Rightarrow> string option"
  osReadDir :: "call list \<Rightarrow> string \<Rightarrow> string + DirEntry list"

definition ListObjects ::
  "backend \<Rightarrow> call list \<Rightarrow> string \<Rightarrow> string \<Rightarrow> (string + S3Object list) \<times> call list" where
  "ListObjects be tr bucket prefix =
     (case sdkListObjectsV2 be tr bucket prefix of
        Inl e \<Rightarrow> (Inl (''failed to list objects: '' @ e), tr @ [ListObjectsV2Call bucket prefix])
      | Inr result \<Rightarrow>
          (Inr (map (\<lambda>key. \<lparr>Key = key, Size = 0, LastModified = [], IsDir = True\<rparr>)
                  (filter (\<lambda>key. key \<noteq> [])
                     (map (\<lambda>p. TrimSuffix p ''/'') (CommonPrefixes result)))
                @ map (\<lambda>(key, size, modified).
                         \<lparr>Key = key, Size = size, LastModified = modified, IsDir = False\<rparr>)
                    (filter (\<lambda>(key, size, modified). \<not> HasSuffix key ''/'')
                       (Contents result))),
           tr @ [ListObjectsV2Call bucket prefix]))"

text \<open>\<open>CopyObject\<close>: the request names the destination key and the copy source
  \<open>bucket/sourceKey\<close>.\<close>

definition CopyObject ::
  "backend \<Rightarrow> call list \<Rightarrow> string \<Rightarrow> string \<Rightarrow> string \<Rightarrow> string option \<times> call list" where
  "CopyObject be tr bucket sourceKey destKey =
     (let copySource = bucket @ ''/'' @ sourceKey in
      (case sdkCopyObject be tr bucket destKey copySource of
         Some e \<Rightarrow> Some (''failed to copy object: '' @ e)
       | None \<Rightarrow> None,
       tr @ [CopyObjectCall bucket destKey copySource]))"

definition DeleteObject ::
  "backend \<Rightarrow> call list \<Rightarrow> string \<Rightarrow> string \<Rightarrow> string option \<times> call list" where
  "DeleteObject be tr bucket key =
     (case sdkDeleteObject be tr bucket key of
        Some e \<Rightarrow> Some (''failed to delete object: '' @ e)
      | None \<Rightarrow> None,
      tr @ [DeleteObjectCall bucket key])"

text \<open>\<open>RenameObject\<close>: copy to the new key; on an error return it; otherwise delete the
  old key; on an error return it.\<close>

definition RenameObject ::
  "backend \<Rightarrow> call list \<Rightarrow> string \<Rightarrow> string \<Rightarrow> string \<Rightarrow> string option \<times> call list" where
  "RenameObject be tr bucket oldKey newKey =
     (case CopyObject be tr bucket oldKey newKey of
        (Some e, tr1) \<Rightarrow> (Some (''failed to copy object during rename: '' @ e), tr1)
      | (None, tr1) \<Rightarrow>
          (case DeleteObject be tr1 bucket oldKey of
             (Some e, tr2) \<Rightarrow>
               (Some (''failed to delete original object during rename: '' @ e), tr2)
           | (None, tr2) \<Rightarrow> (None, tr2)))"

section \<open>The state of the interface\<close>

datatype ViewMode = ViewBrowser | ViewPreview | ViewHelp | ViewUpload | ViewRename | ViewConfirm

record LocalItem =
  Name :: string
  itemIsDir :: bool
  itemSize :: int

record DirStats =
  statsSize :: int
  statsLastModified :: string
  SizeTimeout :: bool
  DateTimeout :: bool

text \<open>
  An error value held by the interface: either a text, or \<open>fmt.Errorf(format)\<close> called
  with a computed format and no operand, whose text is the format wherever that has no
  \<open>%\<close> verb.
\<close>

datatype Error = ErrorText string | Errorf string

text \<open>The fields of \<open>Model\<close>, but for the pointer to the S3 client, which is the
  \<open>backend\<close> parameter here. \<open>confirmData\<close> only ever holds \<open>nil\<close> or a string.\<close>

record Model =
  bucket :: string
  currentPath :: string
  objects :: "S3Object list"
  cursor :: int
  viewMode :: ViewMode
  previewContent :: string
  previewFileName :: string
  previewLines :: "string list"
  previewScroll :: int
  previewWidth :: int
  localItems :: "LocalItem list"
  localPath :: string
  err :: "Error option"
  statusMessage :: string
  loading :: bool
  width :: int
  height :: int
  yankedFiles :: "string list"
  renameInput :: string
  renameOriginal :: string
  renameCursor :: int
  scrollOffset :: int
  confirmAction :: string
  confirmTarget :: string
  confirmData :: "string option"
  dirStatsCache :: "string \<rightharpoonup> DirStats"

text \<open>The messages \<open>Update\<close> distinguishes; \<open>OtherMsg\<close> is any other message.\<close>

datatype Msg =
    WindowSizeMsg int int
  | KeyMsg string
  | ObjectsLoadedMsg "S3Object list" "Error option"
  | PreviewLoadedMsg string string "Error option"
  | FileDownloadedMsg string "Error option"
  | FileUploadedMsg string "Error option"
  | FileDeletedMsg string "Error option"
  | FileCopiedMsg string string "Error option"
  | FileRenamedMsg string string "Error option"
  | StatusMsg string bool
  | LocalFilesLoadedMsg "LocalItem list" string "Error option"
  | ErrorMsg "Error option"
  | DirStatsMsg string int string bool bool
  | OtherMsg

text \<open>
  A command is a closure over the model it was made from and its arguments; \<open>Update\<close>
  returns the list of the commands it dispatches (\<open>nil\<close> is the empty list,
  \<open>tea.Batch\<close> the list of its arguments).
\<close>

datatype Cmd =
    Quit
  | LoadObjects Model
  | PreviewFileContent Model string
  | LoadLocalFiles Model string
  | UploadFile Model string
  | DeleteFile Model string
  | DownloadFile Model string
  | RenameFile Model string string
  | PasteFiles Model
  | CalculateDirStats Model string

definition NewModel :: "string \<Rightarrow> Model" where
  "NewModel b =
     \<lparr>bucket = b, currentPath = [], objects = [], cursor = 0, viewMode = ViewBrowser,
      previewContent = [], previewFileName = [], previewLines = [], previewScroll = 0,
      previewWidth = 0, localItems = [], localPath = [], err = None, statusMessage = [],
      loading = True, width = 0, height = 0, yankedFiles = [], renameInput = [],
      renameOriginal = [], renameCursor = 0, scrollOffset = 0, confirmAction = [],
      confirmTarget = [], confirmData = None, dirStatsCache = Map.empty\<rparr>"

definition Init :: "Model \<Rightarrow> Cmd list" where
  "Init m = [LoadObjects m]"

text \<open>The bytes of the check mark that starts every success message.\<close>

definition checkMark :: string where
  "checkMark = [char_of (226::nat), char_of (156::nat), char_of (147::nat)]"

section \<open>Browser mode\<close>

text \<open>The height left for the list: \<open>m.height - 8\<close>, at least 5. The source computes
  it in \<open>updateScroll\<close> and again in both half-page keys.\<close>

definition availableHeight :: "Model \<Rightarrow> int" where
  "availableHeight m = (if height m - 8 < 5 then 5 else height m - 8)"

definition updateScroll :: "Model \<Rightarrow> Model" where
  "updateScroll m =
     (if length (objects m) = 0 then m\<lparr>scrollOffset := 0\<rparr>
      else
        let h = availableHeight m;
            scrollback = 2;
            s1 = (if cursor m \<ge> scrollOffset m + h - scrollback
                  then cursor m - h + scrollback + 1 else scrollOffset m);
            s2 = (if cursor m < s1 + scrollback then cursor m - scrollback else s1);
            s3 = (if s2 < 0 then 0 else s2);
            s4 = (if s3 > int (length (objects m)) - h
                  then (if int (length (objects m)) - h < 0 then 0
                        else int (length (objects m)) - h)
                  else s3)
        in m\<lparr>scrollOffset := s4\<rparr>)"

text \<open>\<open>m.objects[m.cursor]\<close>: a panic when the cursor is not an index of the list.\<close>

definition selected :: "Model \<Rightarrow> S3Object option" where
  "selected m =
     (if 0 \<le> cursor m \<and> cursor m < int (length (objects m))
      then Some (objects m ! nat (cursor m)) else None)"

text \<open>The index of the first occurrence of a key in the yanked keys, if any.\<close>

fun yankedIndex :: "string list \<Rightarrow> string \<Rightarrow> nat option" where
  "yankedIndex [] key = None"
| "yankedIndex (y # ys) key =
     (if y = key then Some 0 else map_option Suc (yankedIndex ys key))"

definition pageSize :: "Model \<Rightarrow> int" where
  "pageSize m = (if availableHeight m div 2 < 1 then 1 else availableHeight m div 2)"

definition updateBrowser :: "Model \<Rightarrow> string \<Rightarrow> (Model \<times> Cmd list) option" where
  "updateBrowser m k =
     (if k = ''ctrl+c'' \<or> k = ''q'' then Some (m, [Quit])
      else if k = ''up'' \<or> k = ''k'' then
        Some (if cursor m > 0 then updateScroll (m\<lparr>cursor := cursor m - 1\<rparr>) else m, [])
      else if k = ''down'' \<or> k = ''j'' then
        Some (if cursor m < int (length (objects m)) - 1
              then updateScroll (m\<lparr>cursor := cursor m + 1\<rparr>) else m, [])
      else if k = ''enter'' \<or> k = ''l'' \<or> k = ''o'' then
        (if length (objects m) > 0 then
           (case selected m of
              None \<Rightarrow> None
            | Some sel \<Rightarrow>
                if IsDir sel then
                  (let m' = m\<lparr>currentPath := Key sel, loading := True,
                               dirStatsCache := Map.empty\<rparr>
                   in Some (m', [LoadObjects m']))
                else Some (m, [PreviewFileContent m (Key sel)]))
         else Some (m, []))
      else if k = ''backspace'' \<or> k = ''h'' then
        (if currentPath m \<noteq> [] then
           (let parts = Split (currentPath m) CHR ''/'';
                m' = m\<lparr>currentPath := (if length parts > 1 then Join (butlast parts) ''/''
                                          else []),
                        loading := True, dirStatsCache := Map.empty\<rparr>
            in Some (m', [LoadObjects m']))
         else Some (m, []))
      else if k = ''r'' then
        (if length (objects m) > 0 then
           (case selected m of
              None \<Rightarrow> None
            | Some sel \<Rightarrow>
                if \<not> IsDir sel then
                  Some (m\<lparr>renameOriginal := Key sel,
                          renameInput := filepath_Base (Key sel),
                          renameCursor := int (length (filepath_Base (Key sel))),
                          viewMode := ViewRename, err := None, statusMessage := []\<rparr>, [])
                else Some (m, []))
         else Some (m, []))
      else if k = ''d'' then
        (if length (objects m) > 0 then
           (case selected m of
              None \<Rightarrow> None
            | Some sel \<Rightarrow>
                if \<not> IsDir sel then
                  Some (m\<lparr>confirmAction := ''download'', confirmTarget := Key sel,
                          viewMode := ViewConfirm, err := None, statusMessage := []\<rparr>, [])
                else Some (m, []))
         else Some (m, []))
      else if k = ''u'' then Some (m, [LoadLocalFiles m ''.''])
      else if k = ''x'' then
        (if length (objects m) > 0 then
           (case selected m of
              None \<Rightarrow> None
            | Some sel \<Rightarrow>
                if \<not> IsDir sel then
                  Some (m\<lparr>confirmAction := ''delete'', confirmTarget := Key sel,
                          viewMode := ViewConfirm, err := None, statusMessage := []\<rparr>, [])
                else Some (m, []))
         else Some (m, []))
      else if k = ''y'' then
        (if length (objects m) > 0 then
           (case selected m of
              None \<Rightarrow> None
            | Some sel \<Rightarrow>
                if \<not> IsDir sel then
                  (let m1 = m\<lparr>yankedFiles :=
                                 (case yankedIndex (yankedFiles m) (Key sel) of
                                    Some i \<Rightarrow> take i (yankedFiles m) @ drop (i + 1) (yankedFiles m)
                                  | None \<Rightarrow> yankedFiles m @ [Key sel]),
                               err := None\<rparr>
                   in Some (if cursor m1 < int (length (objects m1)) - 1
                            then updateScroll (m1\<lparr>cursor := cursor m1 + 1\<rparr>) else m1, []))
                else Some (m, []))
         else Some (m, []))
      else if k = ''p'' then
        (if length (yankedFiles m) > 0 then Some (m, [PasteFiles m]) else Some (m, []))
      else if k = ''c'' then
        (if length (yankedFiles m) > 0 then
           Some (m\<lparr>yankedFiles := [],
                   statusMessage := checkMark @ '' Cleared ''
                      @ Itoa (int (length (yankedFiles m))) @ '' yanked file(s)'',
                   err := None\<rparr>, [])
         else Some (m, []))
      else if k = ''g'' then
        Some (if length (objects m) > 0 then updateScroll (m\<lparr>cursor := 0\<rparr>) else m, [])
      else if k = ''G'' then
        Some (if length (objects m) > 0
              then updateScroll (m\<lparr>cursor := int (length (objects m)) - 1\<rparr>) else m, [])
      else if k = ''ctrl+d'' then
        Some (if length (objects m) > 0 then
                updateScroll (m\<lparr>cursor :=
                  (if cursor m + pageSize m \<ge> int (length (objects m))
                   then int (length (objects m)) - 1 else cursor m + pageSize m)\<rparr>)
              else m, [])
      else if k = ''ctrl+u'' then
        Some (if length (objects m) > 0 then
                updateScroll (m\<lparr>cursor :=
                  (if cursor m - pageSize m < 0 then 0 else cursor m - pageSize m)\<rparr>)
              else m, [])
      else if k = ''?'' then Some (m\<lparr>viewMode := ViewHelp\<rparr>, [])
      else Some (m, []))"

section \<open>Preview, help, upload picker, rename dialog, confirm dialog\<close>

definition maxScroll :: "Model \<Rightarrow> int" where
  "maxScroll m =
     (if int (length (previewLines m)) - (height m - 8) < 0 then 0
      else int (length (previewLines m)) - (height m - 8))"

definition updatePreview :: "Model \<Rightarrow> string \<Rightarrow> (Model \<times> Cmd list) option" where
  "updatePreview m k =
     (if k = ''ctrl+c'' \<or> k = ''q'' then Some (m, [Quit])
      else if k = ''esc'' \<or> k = ''backspace'' \<or> k = ''h'' \<or> k = ''left'' then
        Some (m\<lparr>viewMode := ViewBrowser, previewContent := [], previewFileName := [],
                previewLines := [], previewScroll := 0, previewWidth := 0\<rparr>, [])
      else if k = ''up'' \<or> k = ''k'' then
        Some (if previewScroll m > 0 then m\<lparr>previewScroll := previewScroll m - 1\<rparr> else m, [])
      else if k = ''down'' \<or> k = ''j'' then
        Some (if previewScroll m < maxScroll m then m\<lparr>previewScroll := previewScroll m + 1\<rparr>
              else m, [])
      else if k = ''pgup'' \<or> k = ''u'' then
        Some (m\<lparr>previewScroll := (if previewScroll m - 10 < 0 then 0 else previewScroll m - 10)\<rparr>,
              [])
      else if k = ''pgdown'' \<or> k = ''d'' then
        Some (m\<lparr>previewScroll := (if previewScroll m + 10 > maxScroll m then maxScroll m
                                    else previewScroll m + 10)\<rparr>, [])
      else if k = ''home'' \<or> k = ''g'' then Some (m\<lparr>previewScroll := 0\<rparr>, [])
      else if k = ''end'' \<or> k = ''G'' then Some (m\<lparr>previewScroll := maxScroll m\<rparr>, [])
      else Some (m, []))"

definition updateHelp :: "Model \<Rightarrow> string \<Rightarrow> (Model \<times> Cmd list) option" where
  "updateHelp m k =
     (if k = ''ctrl+c'' \<or> k = ''q'' then Some (m, [Quit])
      else if k = ''esc'' \<or> k = ''?'' then Some (m\<lparr>viewMode := ViewBrowser\<rparr>, [])
      else Some (m, []))"

text \<open>\<open>m.localItems[m.cursor]\<close>, with its panic.\<close>

definition selectedLocal :: "Model \<Rightarrow> LocalItem option" where
  "selectedLocal m =
     (if 0 \<le> cursor m \<and> cursor m < int (length (localItems m))
      then Some (localItems m ! nat (cursor m)) else None)"

definition parentPath :: "Model \<Rightarrow> string" where
  "parentPath m =
     (let p = filepath_Dir (localPath m)
      in if p = ''.'' \<and> localPath m = ''.'' then ''..''
         else if p = [] \<or> p = ''/'' then ''.''
         else p)"

definition updateUpload :: "Model \<Rightarrow> string \<Rightarrow> (Model \<times> Cmd list) option" where
  "updateUpload m k =
     (if k = ''ctrl+c'' \<or> k = ''q'' then Some (m, [Quit])
      else if k = ''esc'' then Some (m\<lparr>viewMode := ViewBrowser\<rparr>, [])
      else if k = ''up'' \<or> k = ''k'' then
        Some (if cursor m > 0 then m\<lparr>cursor := cursor m - 1\<rparr> else m, [])
      else if k = ''down'' \<or> k = ''j'' then
        Some (if cursor m < int (length (localItems m)) - 1 then m\<lparr>cursor := cursor m + 1\<rparr>
              else m, [])
      else if k = ''enter'' \<or> k = ''l'' \<or> k = ''o'' then
        (if length (localItems m) > 0 then
           (case selectedLocal m of
              None \<Rightarrow> None
            | Some sel \<Rightarrow>
                if itemIsDir sel then
                  Some (m, [LoadLocalFiles m
                              (if Name sel = ''..'' then parentPath m
                               else filepath_Join (localPath m) (Name sel))])
                else
                  Some (m\<lparr>confirmAction := ''upload'', confirmTarget := Name sel,
                          confirmData := Some (filepath_Join (localPath m) (Name sel)),
                          viewMode := ViewConfirm, err := None, statusMessage := []\<rparr>, []))
         else Some (m, []))
      else if k = ''backspace'' \<or> k = ''h'' then Some (m, [LoadLocalFiles m (parentPath m)])
      else Some (m, []))"

text \<open>Go's \<open>s[lo:hi]\<close> and \<open>s[i]\<close> on a string, with their panics.\<close>

definition slice :: "string \<Rightarrow> int \<Rightarrow> int \<Rightarrow> string option" where
  "slice s lo hi =
     (if 0 \<le> lo \<and> lo \<le> hi \<and> hi \<le> int (length s)
      then Some (take (nat (hi - lo)) (drop (nat lo) s)) else None)"

definition byteAt :: "string \<Rightarrow> int \<Rightarrow> char option" where
  "byteAt s i = (if 0 \<le> i \<and> i < int (length s) then Some (s ! nat i) else None)"

text \<open>The two loops of \<open>ctrl+w\<close>: step left while the byte at \<open>start\<close> is
  (respectively is not) a space.\<close>

function skipLeft :: "bool \<Rightarrow> string \<Rightarrow> int \<Rightarrow> int option" where
  "skipLeft spaces s start =
     (if start \<ge> 0 then
        (case byteAt s start of
           None \<Rightarrow> None
         | Some c \<Rightarrow>
             if (c = CHR '' '') = spaces then skipLeft spaces s (start - 1) else Some start)
      else Some start)"
  by pat_completeness auto
termination
  by (relation "measure (\<lambda>(spaces, s, start). nat (start + 1))") auto

declare skipLeft.simps [simp del]

text \<open>The editing keys of the rename dialog, before the final clamp of the cursor.\<close>

definition editRename :: "Model \<Rightarrow> string \<Rightarrow> Model option" where
  "editRename m k =
     (let input = renameInput m; c = renameCursor m; n = int (length (renameInput m)) in
      if k = ''backspace'' then
        (if c > 0 \<and> n > 0 then
           (case (slice input 0 (c - 1), slice input c n) of
              (Some a, Some b) \<Rightarrow> Some (m\<lparr>renameInput := a @ b, renameCursor := c - 1\<rparr>)
            | _ \<Rightarrow> None)
         else Some m)
      else if k = ''delete'' then
        (if c < n then
           (case (slice input 0 c, slice input (c + 1) n) of
              (Some a, Some b) \<Rightarrow> Some (m\<lparr>renameInput := a @ b\<rparr>)
            | _ \<Rightarrow> None)
         else Some m)
      else if k = ''left'' then Some (if c > 0 then m\<lparr>renameCursor := c - 1\<rparr> else m)
      else if k = ''right'' then Some (if c < n then m\<lparr>renameCursor := c + 1\<rparr> else m)
      else if k = ''home'' \<or> k = ''ctrl+a'' then Some (m\<lparr>renameCursor := 0\<rparr>)
      else if k = ''end'' \<or> k = ''ctrl+e'' then Some (m\<lparr>renameCursor := n\<rparr>)
      else if k = ''ctrl+u'' then
        (case slice input c n of
           Some b \<Rightarrow> Some (m\<lparr>renameInput := b, renameCursor := 0\<rparr>)
         | None \<Rightarrow> None)
      else if k = ''ctrl+w'' then
        (if c > 0 then
           (case skipLeft True input (c - 1) of
              None \<Rightarrow> None
            | Some s1 \<Rightarrow>
                (case skipLeft False input s1 of
                   None \<Rightarrow> None
                 | Some s2 \<Rightarrow>
                     (case (slice input 0 (s2 + 1), slice input c n) of
                        (Some a, Some b) \<Rightarrow>
                          Some (m\<lparr>renameInput := a @ b, renameCursor := s2 + 1\<rparr>)
                      | _ \<Rightarrow> None)))
         else Some m)
      else if length k = 1 \<and> (of_char (hd k) :: nat) \<ge> 32 \<and> (of_char (hd k) :: nat) \<le> 126 then
        (case (slice input 0 c, slice input c n) of
           (Some a, Some b) \<Rightarrow> Some (m\<lparr>renameInput := a @ k @ b, renameCursor := c + 1\<rparr>)
         | _ \<Rightarrow> None)
      else Some m)"

definition clampRenameCursor :: "Model \<Rightarrow> Model" where
  "clampRenameCursor m =
     (let m1 = (if renameCursor m < 0 then m\<lparr>renameCursor := 0\<rparr> else m)
      in if renameCursor m1 > int (length (renameInput m1))
         then m1\<lparr>renameCursor := int (length (renameInput m1))\<rparr> else m1)"

text \<open>On \<open>enter\<close> the command is made from the model with the mode and the loading flag
  already set and the dialog buffers not yet cleared.\<close>

definition updateRename :: "Model \<Rightarrow> string \<Rightarrow> (Model \<times> Cmd list) option" where
  "updateRename m k =
     (if k = ''ctrl+c'' \<or> k = ''q'' then Some (m, [Quit])
      else if k = ''esc'' then
        Some (m\<lparr>viewMode := ViewBrowser, renameInput := [], renameOriginal := [],
                renameCursor := 0\<rparr>, [])
      else if k = ''enter'' then
        (if renameInput m \<noteq> [] \<and> renameInput m \<noteq> filepath_Base (renameOriginal m) then
           (let m1 = m\<lparr>viewMode := ViewBrowser, loading := True\<rparr>
            in Some (m1\<lparr>renameInput := [], renameOriginal := [], renameCursor := 0\<rparr>,
                     [RenameFile m1 (renameOriginal m) (renameInput m)]))
         else
           Some (m\<lparr>viewMode := ViewBrowser, renameInput := [], renameOriginal := [],
                   renameCursor := 0\<rparr>, []))
      else
        (case editRename m k of
           None \<Rightarrow> None
         | Some m' \<Rightarrow> Some (clampRenameCursor m', [])))"

definition updateConfirm :: "Model \<Rightarrow> string \<Rightarrow> (Model \<times> Cmd list) option" where
  "updateConfirm m k =
     (if k = ''ctrl+c'' \<or> k = ''q'' then Some (m, [Quit])
      else if k = ''esc'' \<or> k = ''n'' \<or> k = ''N'' then
        Some (m\<lparr>viewMode := ViewBrowser, confirmAction := [], confirmTarget := [],
                confirmData := None\<rparr>, [])
      else if k = ''y'' \<or> k = ''Y'' \<or> k = ''enter'' then
        (let m1 = m\<lparr>viewMode := ViewBrowser, loading := True\<rparr>;
             cmd = (if confirmAction m = ''delete'' then [DeleteFile m1 (confirmTarget m)]
                    else if confirmAction m = ''download'' then [DownloadFile m1 (confirmTarget m)]
                    else if confirmAction m = ''upload'' then
                      (case confirmData m of
                         Some fullPath \<Rightarrow> [UploadFile m1 fullPath]
                       | None \<Rightarrow> [])
                    else [])
         in Some (m1\<lparr>confirmAction := [], confirmTarget := [], confirmData := None\<rparr>, cmd))
      else Some (m, []))"

section \<open>Update\<close>

definition calculatePreviewWidth :: "Model \<Rightarrow> int" where
  "calculatePreviewWidth m =
     (if length (previewLines m) = 0 then 80
      else
        let maxLineLength =
              fold (\<lambda>line acc. if RuneCountInString line + 6 > acc
                                then RuneCountInString line + 6 else acc)
                   (previewLines m) 0;
            optimalWidth = maxLineLength + 8;
            maxAllowedWidth = (if width m - 10 < 40 then 40 else width m - 10)
        in if optimalWidth > maxAllowedWidth then maxAllowedWidth
           else if optimalWidth < 60 then 60
           else optimalWidth)"

text \<open>The directories of a fresh listing that have no cached statistics.\<close>

definition uncachedDirs :: "Model \<Rightarrow> string list" where
  "uncachedDirs m =
     map Key (filter (\<lambda>obj. IsDir obj \<and> dirStatsCache m (Key obj) = None) (objects m))"

fun Update :: "Model \<Rightarrow> Msg \<Rightarrow> (Model \<times> Cmd list) option" where
  "Update m (WindowSizeMsg w h) = Some (m\<lparr>width := w, height := h\<rparr>, [])"
| "Update m (KeyMsg k) =
     (case viewMode m of
        ViewBrowser \<Rightarrow> updateBrowser m k
      | ViewPreview \<Rightarrow> updatePreview m k
      | ViewHelp \<Rightarrow> updateHelp m k
      | ViewUpload \<Rightarrow> updateUpload m k
      | ViewRename \<Rightarrow> updateRename m k
      | ViewConfirm \<Rightarrow> updateConfirm m k)"
| "Update m (ObjectsLoadedMsg objs e) =
     (case e of
        Some x \<Rightarrow> Some (m\<lparr>loading := False, err := Some x\<rparr>, [])
      | None \<Rightarrow>
          (let m' = m\<lparr>loading := False, objects := objs, cursor := 0, scrollOffset := 0,
                       err := None\<rparr>
           in Some (m', map (CalculateDirStats m') (uncachedDirs m'))))"
| "Update m (PreviewLoadedMsg content file e) =
     (case e of
        Some x \<Rightarrow> Some (m\<lparr>err := Some x\<rparr>, [])
      | None \<Rightarrow>
          (let m1 = m\<lparr>previewContent := content, previewFileName := file,
                       previewLines := Split content (char_of (10::nat)), previewScroll := 0\<rparr>
           in Some (m1\<lparr>previewWidth := calculatePreviewWidth m1, viewMode := ViewPreview,
                        err := None\<rparr>, [])))"
| "Update m (FileDownloadedMsg filename e) =
     (case e of
        Some x \<Rightarrow> Some (m\<lparr>loading := False, err := Some x, statusMessage := []\<rparr>, [])
      | None \<Rightarrow>
          Some (m\<lparr>loading := False, err := None,
                  statusMessage := checkMark @ '' Downloaded '' @ [CHR 0x27] @ filename
                                   @ [CHR 0x27] @ '' successfully''\<rparr>, []))"
| "Update m (FileUploadedMsg filename e) =
     (case e of
        Some x \<Rightarrow> Some (m\<lparr>loading := False, err := Some x, statusMessage := []\<rparr>, [])
      | None \<Rightarrow>
          (let m' = m\<lparr>loading := False, err := None,
                       statusMessage := checkMark @ '' Uploaded '' @ [CHR 0x27] @ filename
                                        @ [CHR 0x27] @ '' successfully''\<rparr>
           in Some (m', [LoadObjects m'])))"
| "Update m (LocalFilesLoadedMsg items path e) =
     (case e of
        Some x \<Rightarrow> Some (m\<lparr>err := Some x\<rparr>, [])
      | None \<Rightarrow>
          Some (m\<lparr>localItems := items, localPath := path, cursor := 0, viewMode := ViewUpload,
                  err := None\<rparr>, []))"
| "Update m (FileDeletedMsg filename e) =
     (case e of
        Some x \<Rightarrow> Some (m\<lparr>loading := False, err := Some x, statusMessage := []\<rparr>, [])
      | None \<Rightarrow>
          (let m' = m\<lparr>loading := False, err := None,
                       statusMessage := checkMark @ '' Deleted '' @ [CHR 0x27] @ filename
                                        @ [CHR 0x27] @ '' successfully''\<rparr>
           in Some (m', [LoadObjects m'])))"
| "Update m (FileCopiedMsg sourceKey destKey e) =
     (case e of
        Some x \<Rightarrow> Some (m\<lparr>loading := False, err := Some x, statusMessage := []\<rparr>, [])
      | None \<Rightarrow>
          (let m' = m\<lparr>loading := False, err := None,
                       statusMessage :=
                         (if Contains sourceKey ''files''
                          then checkMark @ '' Copied '' @ sourceKey @ '' successfully''
                          else checkMark @ '' Copied '' @ [CHR 0x27] @ filepath_Base sourceKey
                               @ [CHR 0x27] @ '' to '' @ [CHR 0x27] @ filepath_Base destKey
                               @ [CHR 0x27] @ '' successfully'')\<rparr>
           in Some (m', [LoadObjects m'])))"
| "Update m (FileRenamedMsg oldKey newKey e) =
     (case e of
        Some x \<Rightarrow> Some (m\<lparr>loading := False, err := Some x, statusMessage := []\<rparr>, [])
      | None \<Rightarrow>
          (let m' = m\<lparr>loading := False, err := None,
                       statusMessage := checkMark @ '' Renamed '' @ [CHR 0x27]
                                        @ filepath_Base oldKey @ [CHR 0x27] @ '' to ''
                                        @ [CHR 0x27] @ filepath_Base newKey @ [CHR 0x27]
                                        @ '' successfully''\<rparr>
           in Some (m', [LoadObjects m'])))"
| "Update m (StatusMsg message isError) =
     (if isError then Some (m\<lparr>err := Some (Errorf message), statusMessage := []\<rparr>, [])
      else Some (m\<lparr>err := None, statusMessage := message\<rparr>, []))"
| "Update m (ErrorMsg e) = Some (m\<lparr>err := e, loading := False\<rparr>, [])"
| "Update m (DirStatsMsg dirKey sz modified sizeTimeout dateTimeout) =
     Some (m\<lparr>dirStatsCache := (dirStatsCache m)(dirKey \<mapsto>
              \<lparr>statsSize = sz, statsLastModified = modified, SizeTimeout = sizeTimeout,
               DateTimeout = dateTimeout\<rparr>)\<rparr>, [])"
| "Update m OtherMsg = Some (m, [])"

section \<open>Commands\<close>

text \<open>
  \<open>sort.Slice\<close> orders a slice by a \<open>less\<close> function and promises nothing about
  the order of elements neither of which is less than the other. Insertion sort stands
  for it; the two \<open>less\<close> functions of the program relate any two entries that differ
  in a field they read.
\<close>

fun insertBy :: "('a \<Rightarrow> 'a \<Rightarrow> bool) \<Rightarrow> 'a \<Rightarrow> 'a list \<Rightarrow> 'a list" where
  "insertBy lt x [] = [x]"
| "insertBy lt x (y # ys) = (if lt x y then x # y # ys else y # insertBy lt x ys)"

definition sort_Slice :: "('a \<Rightarrow> 'a \<Rightarrow> bool) \<Rightarrow> 'a list \<Rightarrow> 'a list" where
  "sort_Slice lt xs = foldr (insertBy lt) xs []"

definition objectLess :: "S3Object \<Rightarrow> S3Object \<Rightarrow> bool" where
  "objectLess a b = (if IsDir a \<noteq> IsDir b then IsDir a else Key a < Key b)"

definition localLess :: "LocalItem \<Rightarrow> LocalItem \<Rightarrow> bool" where
  "localLess a b = (if itemIsDir a \<noteq> itemIsDir b then itemIsDir a else Name a < Name b)"

definition withSlash :: "string \<Rightarrow> string" where
  "withSlash p = (if p \<noteq> [] \<and> \<not> HasSuffix p ''/'' then p @ ''/'' else p)"

definition loadObjects :: "backend \<Rightarrow> Model \<Rightarrow> call list \<Rightarrow> Msg \<times> call list" where
  "loadObjects be m tr =
     (case ListObjects be tr (bucket m) (withSlash (currentPath m)) of
        (Inl e, tr') \<Rightarrow> (ObjectsLoadedMsg [] (Some (ErrorText e)), tr')
      | (Inr objs, tr') \<Rightarrow> (ObjectsLoadedMsg (sort_Slice objectLess objs) None, tr'))"

text \<open>The entries kept by \<open>loadLocalFiles\<close>: not hidden, and with an \<open>Info()\<close>.\<close>

fun localEntries :: "DirEntry list \<Rightarrow> LocalItem list" where
  "localEntries [] = []"
| "localEntries (e # es) =
     (if HasPrefix (entryName e) ''.'' then localEntries es
      else (case entryInfo e of
              Inl x \<Rightarrow> localEntries es
            | Inr sz \<Rightarrow>
                \<lparr>Name = entryName e, itemIsDir = entryIsDir e, itemSize = sz\<rparr>
                # localEntries es))"

definition loadLocalFiles :: "backend \<Rightarrow> string \<Rightarrow> call list \<Rightarrow> Msg \<times> call list" where
  "loadLocalFiles be path tr =
     (case osReadDir be tr path of
        Inl e \<Rightarrow> (LocalFilesLoadedMsg [] [] (Some (ErrorText e)), tr @ [ReadDirCall path])
      | Inr entries \<Rightarrow>
          (LocalFilesLoadedMsg
             (sort_Slice localLess
                (\<lparr>Name = ''..'', itemIsDir = True, itemSize = 0\<rparr> # localEntries entries))
             path None,
           tr @ [ReadDirCall path]))"

definition keyExists :: "Model \<Rightarrow> string \<Rightarrow> bool" where
  "keyExists m key = (key \<in> set (map Key (objects m)))"

text \<open>
  \<open>renameFile\<close>: the new key keeps the directory of the old one. The result is the
  message, the trace, and the yanked keys after the write \<open>m.yankedFiles[i] = newKey\<close>,
  which goes to the array the slice shares with the model.
\<close>

definition renamedKey :: "string \<Rightarrow> string \<Rightarrow> string" where
  "renamedKey oldKey newFilename =
     (if Contains oldKey ''/''
      then Join (butlast (Split oldKey CHR ''/'') @ [newFilename]) ''/''
      else newFilename)"

definition renameFile ::
  "backend \<Rightarrow> Model \<Rightarrow> call list \<Rightarrow> string \<Rightarrow> string \<Rightarrow> Msg \<times> call list \<times> string list" where
  "renameFile be m tr oldKey newFilename =
     (let newKey = renamedKey oldKey newFilename in
      if keyExists m newKey then
        (FileRenamedMsg [] []
           (Some (ErrorText (''file '' @ [CHR 0x27] @ newFilename @ [CHR 0x27]
                             @ '' already exists''))),
         tr, yankedFiles m)
      else
        (case RenameObject be tr (bucket m) oldKey newKey of
           (Some e, tr') \<Rightarrow> (FileRenamedMsg [] [] (Some (ErrorText e)), tr', yankedFiles m)
         | (None, tr') \<Rightarrow>
             (FileRenamedMsg oldKey newKey None, tr',
              (case yankedIndex (yankedFiles m) oldKey of
                 Some i \<Rightarrow> (yankedFiles m)[i := newKey]
               | None \<Rightarrow> yankedFiles m))))"

text \<open>\<open>pasteFiles\<close>: the destination of one yanked key, then the loop over all of
  them.\<close>

definition inCurrentPath :: "Model \<Rightarrow> string \<Rightarrow> string" where
  "inCurrentPath m filename =
     (if currentPath m \<noteq> [] then currentPath m @ ''/'' @ filename else filename)"

definition copyName :: "string \<Rightarrow> string \<Rightarrow> int \<Rightarrow> string" where
  "copyName nameWithoutExt ext counter = nameWithoutExt @ ''_copy_'' @ Itoa counter @ ext"

text \<open>Decimal numerals of different integers differ, so the names \<open>name_copy_N\<close> are
  pairwise different and the search below for a free one ends.\<close>

lemma of_char_digit: "d < 10 \<Longrightarrow> (of_char (digit d) :: nat) = 48 + d"
  by (simp add: digit_def)

lemma digit_inj:
  assumes "a < 10" "b < 10" "digit a = digit b"
  shows "a = b"
proof -
  from assms(3) have "(of_char (digit a) :: nat) = of_char (digit b)"
    by (rule arg_cong)
  then have "48 + a = 48 + b"
    by (simp only: of_char_digit [OF assms(1)] of_char_digit [OF assms(2)])
  then show ?thesis by simp
qed

lemma digits_nonempty: "digits n \<noteq> []" "[] \<noteq> digits n"
  by (subst digits.simps, simp)+

lemma digit_not_minus: "d < 10 \<Longrightarrow> digit d \<noteq> CHR ''-''"
  using of_char_digit [of d] by auto

lemma hd_digits_not_minus: "hd (digits n) \<noteq> CHR ''-''"
proof (induction n rule: digits.induct)
  case (1 n)
  show ?case
  proof (cases "n < 10")
    case True
    then show ?thesis by (subst digits.simps) (simp add: digit_not_minus)
  next
    case False
    with 1 show ?thesis
      by (subst digits.simps) (simp add: digits_nonempty)
  qed
qed

lemma digits_inj: "digits a = digits b \<Longrightarrow> a = b"
proof (induction a arbitrary: b rule: digits.induct)
  case (1 a)
  consider "a < 10" "b < 10" | "a < 10" "\<not> b < 10" | "\<not> a < 10" "b < 10"
    | "\<not> a < 10" "\<not> b < 10"
    by blast
  then show ?case
  proof cases
    case 1
    with \<open>digits a = digits b\<close> show ?thesis
      by (subst (asm) digits.simps, subst (asm) (2) digits.simps) (simp add: digit_inj)
  next
    case 2
    with \<open>digits a = digits b\<close> show ?thesis
      by (subst (asm) digits.simps, subst (asm) (2) digits.simps) (simp add: digits_nonempty)
  next
    case 3
    with \<open>digits a = digits b\<close> show ?thesis
      by (subst (asm) digits.simps, subst (asm) (2) digits.simps) (simp add: digits_nonempty)
  next
    case 4
    with \<open>digits a = digits b\<close>
    have "digits (a div 10) @ [digit (a mod 10)] = digits (b div 10) @ [digit (b mod 10)]"
      by (subst (asm) digits.simps, subst (asm) (2) digits.simps) simp
    then have "digits (a div 10) = digits (b div 10)"
      and d: "digit (a mod 10) = digit (b mod 10)"
      by simp_all
    with "1.IH" 4 have "a div 10 = b div 10" by blast
    moreover from d have "a mod 10 = b mod 10" by (simp add: digit_inj)
    ultimately show ?thesis by (metis div_mult_mod_eq)
  qed
qed

lemma Itoa_inj: "Itoa i = Itoa j \<Longrightarrow> i = j"
proof -
  assume eq: "Itoa i = Itoa j"
  have neg: "\<And>n k. CHR ''-'' # digits n \<noteq> digits k"
    using hd_digits_not_minus by (metis list.sel(1))
  consider "i < 0" "j < 0" | "i < 0" "\<not> j < 0" | "\<not> i < 0" "j < 0" | "\<not> i < 0" "\<not> j < 0"
    by blast
  then show ?thesis
  proof cases
    case 1
    with eq have "digits (nat (- i)) = digits (nat (- j))" by (simp add: Itoa_def)
    then have "nat (- i) = nat (- j)" by (rule digits_inj)
    with 1 show ?thesis by simp
  next
    case 2
    with eq neg show ?thesis by (simp add: Itoa_def)
  next
    case 3
    with eq neg [of "nat (- j)" "nat i"] show ?thesis by (simp add: Itoa_def)
  next
    case 4
    with eq have "digits (nat i) = digits (nat j)" by (simp add: Itoa_def)
    then have "nat i = nat j" by (rule digits_inj)
    with 4 show ?thesis by simp
  qed
qed

lemma copyKey_inj:
  "inCurrentPath m (copyName name ext i) = inCurrentPath m (copyName name ext j) \<Longrightarrow> i = j"
  by (auto simp: inCurrentPath_def copyName_def dest: Itoa_inj split: if_splits)

lemma finite_taken:
  "finite {n. keyExists m (inCurrentPath m (copyName name ext n))}"
proof -
  have "inj (\<lambda>n. inCurrentPath m (copyName name ext n))"
    by (rule injI) (rule copyKey_inj)
  then have "finite ((\<lambda>n. inCurrentPath m (copyName name ext n)) -` set (map Key (objects m)))"
    by (intro finite_vimageI) simp_all
  then show ?thesis by (simp add: keyExists_def vimage_def)
qed

text \<open>The inner loop of \<open>pasteFiles\<close>: count up from \<open>counter\<close> until the key is not in
  the listing.\<close>

function uniqueKey :: "Model \<Rightarrow> string \<Rightarrow> string \<Rightarrow> int \<Rightarrow> string" where
  "uniqueKey m nameWithoutExt ext counter =
     (if keyExists m (inCurrentPath m (copyName nameWithoutExt ext counter))
      then uniqueKey m nameWithoutExt ext (counter + 1)
      else inCurrentPath m (copyName nameWithoutExt ext counter))"
  by pat_completeness auto
termination
proof (relation "measure (\<lambda>(m, name, ext, counter).
         card {n. counter \<le> n \<and> keyExists m (inCurrentPath m (copyName name ext n))})",
       goal_cases)
  case 1
  show ?case by simp
next
  case (2 m name ext counter)
  let ?T = "\<lambda>c. {n. c \<le> n \<and> keyExists m (inCurrentPath m (copyName name ext n))}"
  have fin: "finite (?T counter)"
    using finite_taken [of m name ext] by (rule rev_finite_subset) auto
  have "counter \<in> ?T counter" and "counter \<notin> ?T (counter + 1)"
    using 2 by simp_all
  moreover have "?T (counter + 1) \<subseteq> ?T counter"
    by auto
  ultimately have "?T (counter + 1) \<subset> ?T counter"
    by blast
  with fin have "card (?T (counter + 1)) < card (?T counter)"
    by (rule psubset_card_mono)
  then show ?case by simp
qed

declare uniqueKey.simps [simp del]

definition destKey :: "Model \<Rightarrow> string \<Rightarrow> string" where
  "destKey m yankedFile =
     (let filename = filepath_Base yankedFile in
      if keyExists m (inCurrentPath m filename)
      then uniqueKey m (TrimSuffix filename (filepath_Ext filename)) (filepath_Ext filename) 1
      else inCurrentPath m filename)"

text \<open>The loop over the yanked keys, with the names copied, the failures and the
  trace.\<close>

fun pasteLoop ::
  "backend \<Rightarrow> Model \<Rightarrow> string list \<Rightarrow> string list \<Rightarrow> string list \<Rightarrow> call list
     \<Rightarrow> string list \<times> string list \<times> call list" where
  "pasteLoop be m [] copiedFiles errors tr = (copiedFiles, errors, tr)"
| "pasteLoop be m (yankedFile # rest) copiedFiles errors tr =
     (case CopyObject be tr (bucket m) yankedFile (destKey m yankedFile) of
        (Some e, tr') \<Rightarrow>
          pasteLoop be m rest copiedFiles
            (errors @ [filepath_Base yankedFile @ '': '' @ e]) tr'
      | (None, tr') \<Rightarrow>
          pasteLoop be m rest (copiedFiles @ [filepath_Base (destKey m yankedFile)]) errors tr')"

definition pasteFiles :: "backend \<Rightarrow> Model \<Rightarrow> call list \<Rightarrow> Msg \<times> call list" where
  "pasteFiles be m tr =
     (if length (yankedFiles m) = 0
      then (FileCopiedMsg [] [] (Some (ErrorText ''no files yanked for copying'')), tr)
      else
        (case pasteLoop be m (yankedFiles m) [] [] tr of
           (copiedFiles, errors, tr') \<Rightarrow>
             if length errors > 0 then
               (FileCopiedMsg [] []
                  (Some (Errorf
                     (''Failed to copy '' @ Itoa (int (length errors)) @ '' file(s): ''
                      @ Join errors '', ''
                      @ (if length copiedFiles > 0
                         then ''. Successfully copied: '' @ Join copiedFiles '', ''
                         else [])))),
                tr')
             else
               (FileCopiedMsg (Itoa (int (length (yankedFiles m))) @ '' files'')
                  (Join copiedFiles '', '') None,
                tr')))"

text \<open>
  \<open>calculateDirStats\<close> starts two goroutines, each listing the directory, and waits for
  each in a \<open>select\<close> with a timer. Which case of a \<open>select\<close> fires is an input here:
  the goroutine's answer (its value or its error) or the timer.
\<close>

datatype race = Answer | Timer

definition totalSize :: "S3Object list \<Rightarrow> int" where
  "totalSize objs = fold (\<lambda>obj total. if \<not> IsDir obj then total + Size obj else total) objs 0"

definition latestDate :: "S3Object list \<Rightarrow> string" where
  "latestDate objs =
     (let latest = fold (\<lambda>obj latest.
                           if \<not> IsDir obj \<and> (latest = [] \<or> LastModified obj > latest)
                           then LastModified obj else latest) objs []
      in if latest = [] then ''N/A'' else latest)"

definition calculateDirStats ::
  "backend \<Rightarrow> Model \<Rightarrow> call list \<Rightarrow> string \<Rightarrow> race \<Rightarrow> race \<Rightarrow> Msg \<times> call list" where
  "calculateDirStats be m tr dirKey sizeRace dateRace =
     (case ListObjects be tr (bucket m) (withSlash dirKey) of
        (sizeListing, tr1) \<Rightarrow>
          (case ListObjects be tr1 (bucket m) (withSlash dirKey) of
             (dateListing, tr2) \<Rightarrow>
               (let (sz, sizeTimeout) =
                      (case (sizeRace, sizeListing) of
                         (Answer, Inr objs) \<Rightarrow> (totalSize objs, False)
                       | (Answer, Inl e) \<Rightarrow> (0, True)
                       | (Timer, r) \<Rightarrow> (0, True));
                    (modified, dateTimeout) =
                      (case (dateRace, dateListing) of
                         (Answer, Inr objs) \<Rightarrow> (latestDate objs, False)
                       | (Answer, Inl e) \<Rightarrow> (''N/A'', True)
                       | (Timer, r) \<Rightarrow> (''N/A'', True))
                in (DirStatsMsg dirKey sz modified sizeTimeout dateTimeout, tr2))))"

section \<open>The older variant of the browser keys\<close>

text \<open>
  The older variant of the interface has the fields of \<open>Model\<close> up to \<open>height\<close> and
  none of the later ones: no yanked keys, no dialogs, no scroll offset and no cache of
  directory statistics. Its \<open>updateBrowser\<close> is written over the same record and
  leaves the later fields alone.
\<close>

definition legacy_updateBrowser :: "Model \<Rightarrow> string \<Rightarrow> (Model \<times> Cmd list) option" where
  "legacy_updateBrowser m k =
     (if k = ''ctrl+c'' \<or> k = ''q'' then Some (m, [Quit])
      else if k = ''up'' \<or> k = ''k'' then
        Some (if cursor m > 0 then m\<lparr>cursor := cursor m - 1\<rparr> else m, [])
      else if k = ''down'' \<or> k = ''j'' then
        Some (if cursor m < int (length (objects m)) - 1 then m\<lparr>cursor := cursor m + 1\<rparr>
              else m, [])
      else if k = ''enter'' \<or> k = ''l'' \<or> k = ''o'' then
        (if length (objects m) > 0 then
           (case selected m of
              None \<Rightarrow> None
            | Some sel \<Rightarrow>
                if IsDir sel then
                  (let m' = m\<lparr>currentPath := Key sel, loading := True\<rparr>
                   in Some (m', [LoadObjects m']))
                else Some (m, [PreviewFileContent m (Key sel)]))
         else Some (m, []))
      else if k = ''backspace'' \<or> k = ''h'' then
        (if currentPath m \<noteq> [] then
           (let parts = Split (currentPath m) CHR ''/'';
                m' = m\<lparr>currentPath := (if length parts > 1 then Join (butlast parts) ''/''
                                          else []),
                        loading := True\<rparr>
            in Some (m', [LoadObjects m']))
         else Some (m, []))
      else if k = ''r'' then
        (let m' = m\<lparr>loading := True\<rparr> in Some (m', [LoadObjects m']))
      else if k = ''d'' then
        (if length (objects m) > 0 then
           (case selected m of
              None \<Rightarrow> None
            | Some sel \<Rightarrow>
                if \<not> IsDir sel then Some (m, [DownloadFile m (Key sel)]) else Some (m, []))
         else Some (m, []))
      else if k = ''u'' then Some (m, [LoadLocalFiles m ''.''])
      else if k = ''x'' then
        (if length (objects m) > 0 then
           (case selected m of
              None \<Rightarrow> None
            | Some sel \<Rightarrow>
                if \<not> IsDir sel then Some (m, [DeleteFile m (Key sel)]) else Some (m, []))
         else Some (m, []))
      else if k = ''?'' then Some (m\<lparr>viewMode := ViewHelp\<rparr>, [])
      else Some (m, []))"

section \<open>What a view shows of the error and of the status message\<close>

text \<open>
  The browser view writes the error if there is one, and otherwise the status message
  if that is not empty. The preview, upload, rename and confirm views write the error
  if there is one and never the status message; the help view writes neither.
\<close>

datatype Notice = ShowsError Error | ShowsStatus string

definition notices :: "Model \<Rightarrow> Notice list" where
  "notices m =
     (case viewMode m of
        ViewBrowser \<Rightarrow>
          (case err m of
             Some e \<Rightarrow> [ShowsError e]
           | None \<Rightarrow> if statusMessage m \<noteq> [] then [ShowsStatus (statusMessage m)] else [])
      | ViewHelp \<Rightarrow> []
      | _ \<Rightarrow> (case err m of Some e \<Rightarrow> [ShowsError e] | None \<Rightarrow> []))"

section \<open>Reachable states\<close>

text \<open>
  The runtime delivers key presses and window sizes, and the messages the commands
  return. A \<open>dirStatsMsg\<close> is made by \<open>calculateDirStats\<close> only; for the other
  messages every value is admitted.
\<close>

inductive delivered :: "Msg \<Rightarrow> bool" where
  stats: "delivered (fst (calculateDirStats be m tr dirKey sizeRace dateRace))"
| other: "(\<And>dirKey sz modified st dt. msg \<noteq> DirStatsMsg dirKey sz modified st dt) \<Longrightarrow> delivered msg"

inductive reachable :: "Model \<Rightarrow> bool" where
  init: "reachable (NewModel b)"
| step: "reachable m \<Longrightarrow> delivered msg \<Longrightarrow> Update m msg = Some (m', cmds) \<Longrightarrow> reachable m'"

text \<open>The state after a list of messages, from a given state.\<close>

fun run :: "Model \<Rightarrow> Msg list \<Rightarrow> Model option" where
  "run m [] = Some m"
| "run m (msg # msgs) = (case Update m msg of None \<Rightarrow> None | Some (m', cmds) \<Rightarrow> run m' msgs)"

section \<open>Sample stores and listings\<close>

text \<open>A store on which every copy succeeds and every delete is refused.\<close>

definition refusingDelete :: backend where
  "refusingDelete =
     \<lparr>sdkListObjectsV2 = (\<lambda>tr b p. Inl ''unused''),
      sdkCopyObject = (\<lambda>tr b k s. None),
      sdkDeleteObject = (\<lambda>tr b k. Some ''AccessDenied''),
      osReadDir = (\<lambda>tr p. Inl ''unused'')\<rparr>"

text \<open>A store with two directories and two files under \<open>docs\<close> (and the marker object
  of \<open>docs\<close> itself) on which every call succeeds, and a local directory.\<close>

definition sampleStore :: backend where
  "sampleStore =
     \<lparr>sdkListObjectsV2 = (\<lambda>tr b p. Inr \<lparr>CommonPrefixes = [''docs/zeta/'', ''docs/alpha/''],
                                         Contents = [(''docs/b.txt'', 2, ''2024-01-02 10:00:00''),
                                                     (''docs/'', 0, ''2024-01-01 08:00:00''),
                                                     (''docs/a.txt'', 1, ''2024-01-03 10:00:00'')]\<rparr>),
      sdkCopyObject = (\<lambda>tr b k s. None),
      sdkDeleteObject = (\<lambda>tr b k. None),
      osReadDir = (\<lambda>tr p. Inr [\<lparr>entryName = ''b.txt'', entryIsDir = False, entryInfo = Inr 2\<rparr>,
                                \<lparr>entryName = ''src'', entryIsDir = True, entryInfo = Inr 0\<rparr>,
                                \<lparr>entryName = ''.git'', entryIsDir = True, entryInfo = Inr 0\<rparr>,
                                \<lparr>entryName = ''a.txt'', entryIsDir = False, entryInfo = Inr 1\<rparr>])\<rparr>"

text \<open>A listing of one file.\<close>

definition oneFile :: "S3Object list" where
  "oneFile = [\<lparr>Key = ''a.txt'', Size = 1, LastModified = ''2024-01-01 10:00:00'', IsDir = False\<rparr>]"

section \<open>Rename is copy, then delete\<close>

text \<open>
  Claim C6. \<open>RenameObject\<close> first requests the copy to the new key. If the copy fails,
  the result is the copy's error and the copy request is the only call made: no delete
  is attempted. If the copy succeeds, the delete of the old key is requested next, on
  the store as the copy left it; if the delete fails, the result is the delete's error,
  and nothing is requested after the delete, so that the object copied to the new key
  stays. If both succeed the result is no error.
\<close>

theorem RenameObject_copy_then_delete:
  "(sdkCopyObject be tr b newKey (b @ ''/'' @ oldKey) = Some e \<longrightarrow>
      RenameObject be tr b oldKey newKey =
        (Some (''failed to copy object during rename: failed to copy object: '' @ e),
         tr @ [CopyObjectCall b newKey (b @ ''/'' @ oldKey)]))
   \<and> (sdkCopyObject be tr b newKey (b @ ''/'' @ oldKey) = None \<longrightarrow>
      snd (RenameObject be tr b oldKey newKey) =
        tr @ [CopyObjectCall b newKey (b @ ''/'' @ oldKey),
              DeleteObjectCall b oldKey]
      \<and> fst (RenameObject be tr b oldKey newKey) =
        (case sdkDeleteObject be
                (tr @ [CopyObjectCall b newKey (b @ ''/'' @ oldKey)]) b oldKey of
           Some e' \<Rightarrow>
             Some (''failed to delete original object during rename: failed to delete object: ''
                   @ e')
         | None \<Rightarrow> None))"
  by (auto simp: RenameObject_def CopyObject_def DeleteObject_def Let_def
           split: option.splits)

text \<open>On the store that refuses every delete, the rename reports the delete's error
  after exactly one copy and one delete.\<close>

theorem RenameObject_copy_then_delete_witness:
  "RenameObject refusingDelete [] ''b'' ''a.txt'' ''c.txt'' =
     (Some (''failed to delete original object during rename: failed to delete object: ''
            @ ''AccessDenied''),
      [CopyObjectCall ''b'' ''c.txt'' ''b/a.txt'', DeleteObjectCall ''b'' ''a.txt''])"
  using RenameObject_copy_then_delete [of refusingDelete "[]" "''b''" "''c.txt''" "''a.txt''" "''x''"]
  by (simp add: refusingDelete_def prod_eq_iff)

section \<open>Keys that do nothing on a directory\<close>

text \<open>
  Claim C10. In Browser mode, with a directory under the cursor, the keys \<open>x\<close> (delete),
  \<open>d\<close> (download) and \<open>r\<close> (rename) return the model as it was and dispatch no
  command: no dialog opens and nothing is requested from the store.
\<close>

theorem directory_keys_do_nothing:
  assumes "viewMode m = ViewBrowser"
    and "0 \<le> cursor m" and "cursor m < int (length (objects m))"
    and "IsDir (objects m ! nat (cursor m))"
    and "k = ''x'' \<or> k = ''d'' \<or> k = ''r''"
  shows "Update m (KeyMsg k) = Some (m, [])"
proof -
  have sel: "selected m = Some (objects m ! nat (cursor m))"
    using assms(2,3) by (simp add: selected_def)
  have len: "length (objects m) > 0"
    using assms(2,3) by auto
  from assms(5) have "updateBrowser m k = Some (m, [])"
  proof (elim disjE)
    assume "k = ''x''"
    then show ?thesis using sel len assms(4) by (simp add: updateBrowser_def)
  next
    assume "k = ''d''"
    then show ?thesis using sel len assms(4) by (simp add: updateBrowser_def)
  next
    assume "k = ''r''"
    then show ?thesis using sel len assms(4) by (simp add: updateBrowser_def)
  qed
  with assms(1) show ?thesis by simp
qed

definition oneDirectory :: Model where
  "oneDirectory = (NewModel ''b'')\<lparr>objects :=
      [\<lparr>Key = ''docs'', Size = 0, LastModified = [], IsDir = True\<rparr>], loading := False\<rparr>"

theorem directory_keys_do_nothing_witness:
  "Update oneDirectory (KeyMsg ''x'') = Some (oneDirectory, [])
   \<and> Update oneDirectory (KeyMsg ''d'') = Some (oneDirectory, [])
   \<and> Update oneDirectory (KeyMsg ''r'') = Some (oneDirectory, [])"
proof -
  have h: "viewMode oneDirectory = ViewBrowser" "0 \<le> cursor oneDirectory"
    "cursor oneDirectory < int (length (objects oneDirectory))"
    "IsDir (objects oneDirectory ! nat (cursor oneDirectory))"
    by (simp_all add: oneDirectory_def NewModel_def)
  show ?thesis
    using directory_keys_do_nothing [OF h, of "''x''"] directory_keys_do_nothing [OF h, of "''d''"]
      directory_keys_do_nothing [OF h, of "''r''"]
    by simp
qed


section \<open>Fields that the helpers leave alone\<close>

lemma updateScroll_fields [simp]:
  "err (updateScroll m) = err m" "statusMessage (updateScroll m) = statusMessage m"
  "dirStatsCache (updateScroll m) = dirStatsCache m" "cursor (updateScroll m) = cursor m"
  "objects (updateScroll m) = objects m" "height (updateScroll m) = height m"
  "viewMode (updateScroll m) = viewMode m" "currentPath (updateScroll m) = currentPath m"
  by (simp_all add: updateScroll_def Let_def)

lemma editRename_frame:
  "editRename m k = Some m' \<Longrightarrow>
     dirStatsCache m' = dirStatsCache m \<and> scrollOffset m' = scrollOffset m \<and> err m' = err m
     \<and> statusMessage m' = statusMessage m \<and> viewMode m' = viewMode m"
  unfolding editRename_def Let_def
  by (clarsimp split: if_splits option.splits prod.splits)

lemma clampRenameCursor_fields [simp]:
  "err (clampRenameCursor m) = err m" "statusMessage (clampRenameCursor m) = statusMessage m"
  "dirStatsCache (clampRenameCursor m) = dirStatsCache m"
  "scrollOffset (clampRenameCursor m) = scrollOffset m"
  "viewMode (clampRenameCursor m) = viewMode m"
  by (simp_all add: clampRenameCursor_def Let_def)

lemma updateRename_dispatch:
  assumes "updateRename m k = Some (m', cs)" and "RenameFile c a n \<in> set cs"
  shows "k = ''enter'' \<and> renameInput m \<noteq> [] \<and> renameInput m \<noteq> filepath_Base (renameOriginal m)"
  using assms unfolding updateRename_def Let_def
  by (clarsimp split: if_splits option.splits)

section \<open>Confirming the rename dialog\<close>

text \<open>
  Claim C7. In the rename dialog a rename command is dispatched by \<open>enter\<close> only, and
  only when the entered name is not empty and differs from the base name of the key being
  renamed; the command then carries the old key and the entered name. With the name
  empty or unchanged, \<open>enter\<close> dispatches nothing and returns to Browser mode with the
  dialog buffers cleared. The command itself, when the new key is already in the listing
  it was dispatched with, returns the error \<open>file '...' already exists\<close> and makes no
  call to the store.
\<close>

theorem rename_confirm:
  "(updateRename m k = Some (m', cs) \<and> RenameFile c a n \<in> set cs \<longrightarrow>
      k = ''enter'' \<and> renameInput m \<noteq> [] \<and> renameInput m \<noteq> filepath_Base (renameOriginal m))
   \<and> (renameInput m \<noteq> [] \<and> renameInput m \<noteq> filepath_Base (renameOriginal m) \<longrightarrow>
      updateRename m ''enter'' =
        Some (m\<lparr>viewMode := ViewBrowser, loading := True, renameInput := [],
                renameOriginal := [], renameCursor := 0\<rparr>,
              [RenameFile (m\<lparr>viewMode := ViewBrowser, loading := True\<rparr>)
                 (renameOriginal m) (renameInput m)]))
   \<and> (renameInput m = [] \<or> renameInput m = filepath_Base (renameOriginal m) \<longrightarrow>
      updateRename m ''enter'' =
        Some (m\<lparr>viewMode := ViewBrowser, renameInput := [], renameOriginal := [],
                renameCursor := 0\<rparr>, []))
   \<and> (keyExists snap (renamedKey oldKey newFilename) \<longrightarrow>
      renameFile be snap tr oldKey newFilename =
        (FileRenamedMsg [] []
           (Some (ErrorText (''file '' @ [CHR 0x27] @ newFilename @ [CHR 0x27]
                             @ '' already exists''))),
         tr, yankedFiles snap))"
proof -
  have 1: "updateRename m k = Some (m', cs) \<and> RenameFile c a n \<in> set cs \<longrightarrow>
      k = ''enter'' \<and> renameInput m \<noteq> [] \<and> renameInput m \<noteq> filepath_Base (renameOriginal m)"
    using updateRename_dispatch by blast
  have 2: "renameInput m \<noteq> [] \<and> renameInput m \<noteq> filepath_Base (renameOriginal m) \<longrightarrow>
      updateRename m ''enter'' =
        Some (m\<lparr>viewMode := ViewBrowser, loading := True, renameInput := [],
                renameOriginal := [], renameCursor := 0\<rparr>,
              [RenameFile (m\<lparr>viewMode := ViewBrowser, loading := True\<rparr>)
                 (renameOriginal m) (renameInput m)])"
    by (simp add: updateRename_def Let_def)
  have 3: "renameInput m = [] \<or> renameInput m = filepath_Base (renameOriginal m) \<longrightarrow>
      updateRename m ''enter'' =
        Some (m\<lparr>viewMode := ViewBrowser, renameInput := [], renameOriginal := [],
                renameCursor := 0\<rparr>, [])"
    by (simp add: updateRename_def Let_def)
  have 4: "keyExists snap (renamedKey oldKey newFilename) \<longrightarrow>
      renameFile be snap tr oldKey newFilename =
        (FileRenamedMsg [] []
           (Some (ErrorText (''file '' @ [CHR 0x27] @ newFilename @ [CHR 0x27]
                             @ '' already exists''))),
         tr, yankedFiles snap)"
    by (simp add: renameFile_def Let_def)
  from 1 2 3 4 show ?thesis by blast
qed

text \<open>The dialog opened on \<open>docs/report.txt\<close>, once with the name unchanged and once with
  the name of a file that the listing already has.\<close>

definition renaming :: "string \<Rightarrow> Model" where
  "renaming input =
     (NewModel ''b'')\<lparr>currentPath := ''docs'',
        objects := [\<lparr>Key = ''docs/notes.txt'', Size = 1, LastModified = [], IsDir = False\<rparr>,
                    \<lparr>Key = ''docs/report.txt'', Size = 2, LastModified = [], IsDir = False\<rparr>],
        cursor := 1, viewMode := ViewRename, loading := False,
        renameOriginal := ''docs/report.txt'', renameInput := input,
        renameCursor := int (length input)\<rparr>"

theorem rename_confirm_witness:
  "updateRename (renaming ''report.txt'') ''enter'' =
     Some ((renaming ''report.txt'')\<lparr>viewMode := ViewBrowser, renameInput := [],
             renameOriginal := [], renameCursor := 0\<rparr>, [])
   \<and> updateRename (renaming ''notes.txt'') ''enter'' =
     Some ((renaming ''notes.txt'')\<lparr>viewMode := ViewBrowser, loading := True, renameInput := [],
             renameOriginal := [], renameCursor := 0\<rparr>,
           [RenameFile ((renaming ''notes.txt'')\<lparr>viewMode := ViewBrowser, loading := True\<rparr>)
              ''docs/report.txt'' ''notes.txt''])
   \<and> renameFile refusingDelete ((renaming ''notes.txt'')\<lparr>viewMode := ViewBrowser, loading := True\<rparr>)
        [] ''docs/report.txt'' ''notes.txt'' =
     (FileRenamedMsg [] []
        (Some (ErrorText (''file '' @ [CHR 0x27] @ ''notes.txt'' @ [CHR 0x27] @ '' already exists''))),
      [], [])"
proof -
  have a: "renameInput (renaming ''report.txt'') = filepath_Base (renameOriginal (renaming ''report.txt''))"
    by (simp add: renaming_def NewModel_def filepath_Base_def lastElement_def)
  have b: "renameInput (renaming ''notes.txt'') \<noteq> []
           \<and> renameInput (renaming ''notes.txt'') \<noteq> filepath_Base (renameOriginal (renaming ''notes.txt''))"
    by (simp add: renaming_def NewModel_def filepath_Base_def lastElement_def)
  have c: "keyExists ((renaming ''notes.txt'')\<lparr>viewMode := ViewBrowser, loading := True\<rparr>)
             (renamedKey ''docs/report.txt'' ''notes.txt'')"
    by (simp add: renaming_def NewModel_def keyExists_def renamedKey_def HasPrefix_def)
  have d: "renameOriginal (renaming ''notes.txt'') = ''docs/report.txt''"
    "renameInput (renaming ''notes.txt'') = ''notes.txt''"
    "yankedFiles ((renaming ''notes.txt'')\<lparr>viewMode := ViewBrowser, loading := True\<rparr>) = []"
    by (simp_all add: renaming_def NewModel_def)
  show ?thesis
    using a b c d
      rename_confirm [where m = "renaming ''report.txt''"
        and snap = "(renaming ''notes.txt'')\<lparr>viewMode := ViewBrowser, loading := True\<rparr>"
        and oldKey = "''docs/report.txt''" and newFilename = "''notes.txt''"
        and be = refusingDelete and tr = "[]"]
      rename_confirm [where m = "renaming ''notes.txt''"
        and snap = "(renaming ''notes.txt'')\<lparr>viewMode := ViewBrowser, loading := True\<rparr>"
        and oldKey = "''docs/report.txt''" and newFilename = "''notes.txt''"
        and be = refusingDelete and tr = "[]"]
    by simp
qed


section \<open>The key \<open>r\<close>: refresh in the older variant, rename in the complete one\<close>

lemma updateBrowser_listing:
  assumes "updateBrowser m k = Some (m', cs)" and "LoadObjects c \<in> set cs"
  shows "(k = ''enter'' \<or> k = ''l'' \<or> k = ''o'' \<or> k = ''backspace'' \<or> k = ''h'')
         \<and> c = m' \<and> dirStatsCache m' = Map.empty \<and> loading m'"
  using assms unfolding updateBrowser_def Let_def
  by (clarsimp split: if_splits option.splits)

lemma updateBrowser_r:
  assumes "updateBrowser m ''r'' = Some (m', cs)"
  shows "cs = [] \<and> dirStatsCache m' = dirStatsCache m \<and> currentPath m' = currentPath m
         \<and> objects m' = objects m \<and> loading m' = loading m"
  using assms unfolding updateBrowser_def Let_def
  by (clarsimp split: if_splits option.splits)

text \<open>
  Claim C9, as the code has it. In the older variant \<open>r\<close> in Browser mode sets the
  loading flag and dispatches the listing of the current prefix; that variant has no
  cache of directory statistics. In the complete variant \<open>r\<close> dispatches nothing and
  leaves the prefix, the listing, the loading flag and the cache as they are (it opens
  the rename dialog on a file); there a Browser key dispatches the listing only when it
  is one of the navigation keys (enter, l, o, backspace, h), and then the cache is empty
  in the new model, which is the model the listing command is made from.
\<close>

theorem refresh_key:
  "legacy_updateBrowser m ''r'' = Some (m\<lparr>loading := True\<rparr>, [LoadObjects (m\<lparr>loading := True\<rparr>)])
   \<and> (updateBrowser m ''r'' = Some (m', cs) \<longrightarrow>
        cs = [] \<and> dirStatsCache m' = dirStatsCache m \<and> currentPath m' = currentPath m
        \<and> objects m' = objects m \<and> loading m' = loading m)
   \<and> (updateBrowser m k = Some (m', cs) \<and> LoadObjects c \<in> set cs \<longrightarrow>
        (k = ''enter'' \<or> k = ''l'' \<or> k = ''o'' \<or> k = ''backspace'' \<or> k = ''h'')
        \<and> c = m' \<and> dirStatsCache m' = Map.empty \<and> loading m')"
proof -
  have "legacy_updateBrowser m ''r'' = Some (m\<lparr>loading := True\<rparr>, [LoadObjects (m\<lparr>loading := True\<rparr>)])"
    by (simp add: legacy_updateBrowser_def Let_def)
  then show ?thesis
    using updateBrowser_r [of m m' cs] updateBrowser_listing [of m k m' cs c] by blast
qed

text \<open>A listing of \<open>docs\<close> with the cursor on a file and statistics cached for the
  directory \<open>docs/old\<close>, and the messages that lead to it.\<close>

definition browsingDocs :: Model where
  "browsingDocs =
     (NewModel ''b'')\<lparr>currentPath := ''docs'',
        objects := [\<lparr>Key = ''docs/old'', Size = 0, LastModified = [], IsDir = True\<rparr>,
                    \<lparr>Key = ''docs/a.txt'', Size = 3, LastModified = ''2024-01-01 10:00:00'',
                     IsDir = False\<rparr>],
        cursor := 1, loading := False,
        dirStatsCache := [''docs/old'' \<mapsto> \<lparr>statsSize = 7, statsLastModified = ''2024-01-01 09:00:00'',
                                             SizeTimeout = False, DateTimeout = False\<rparr>]\<rparr>"

lemma browsingDocs_fields:
  "viewMode browsingDocs = ViewBrowser" "currentPath browsingDocs = ''docs''"
  "selected browsingDocs = Some \<lparr>Key = ''docs/a.txt'', Size = 3,
      LastModified = ''2024-01-01 10:00:00'', IsDir = False\<rparr>"
  "length (objects browsingDocs) = 2" "cursor browsingDocs = 1"
  "dirStatsCache browsingDocs ''docs/old'' \<noteq> None"
  "Split (currentPath browsingDocs) CHR ''/'' = [''docs'']"
  by (simp_all add: browsingDocs_def NewModel_def selected_def)

lemma browsingDocs_reached:
  "run (NewModel ''b'')
     [ObjectsLoadedMsg [\<lparr>Key = ''docs'', Size = 0, LastModified = [], IsDir = True\<rparr>] None,
      KeyMsg ''enter'',
      ObjectsLoadedMsg [\<lparr>Key = ''docs/old'', Size = 0, LastModified = [], IsDir = True\<rparr>,
                        \<lparr>Key = ''docs/a.txt'', Size = 3, LastModified = ''2024-01-01 10:00:00'',
                         IsDir = False\<rparr>] None,
      DirStatsMsg ''docs/old'' 7 ''2024-01-01 09:00:00'' False False,
      KeyMsg ''down''] = Some browsingDocs"
  by (simp add: NewModel_def browsingDocs_def updateBrowser_def selected_def updateScroll_def
        availableHeight_def Let_def)


theorem refresh_key_witness:
  "legacy_updateBrowser browsingDocs ''r'' =
     Some (browsingDocs\<lparr>loading := True\<rparr>, [LoadObjects (browsingDocs\<lparr>loading := True\<rparr>)])
   \<and> updateBrowser browsingDocs ''backspace'' =
     Some (browsingDocs\<lparr>currentPath := [], loading := True, dirStatsCache := Map.empty\<rparr>,
           [LoadObjects (browsingDocs\<lparr>currentPath := [], loading := True,
                          dirStatsCache := Map.empty\<rparr>)])
   \<and> dirStatsCache (browsingDocs\<lparr>currentPath := [], loading := True,
                          dirStatsCache := Map.empty\<rparr>) = Map.empty"
proof -
  have b: "updateBrowser browsingDocs ''backspace'' =
     Some (browsingDocs\<lparr>currentPath := [], loading := True, dirStatsCache := Map.empty\<rparr>,
           [LoadObjects (browsingDocs\<lparr>currentPath := [], loading := True,
                          dirStatsCache := Map.empty\<rparr>)])"
    by (simp add: updateBrowser_def browsingDocs_fields Let_def)
  show ?thesis
    using b refresh_key [where m = browsingDocs and k = "''backspace''"
        and m' = "browsingDocs\<lparr>currentPath := [], loading := True, dirStatsCache := Map.empty\<rparr>"
        and cs = "[LoadObjects (browsingDocs\<lparr>currentPath := [], loading := True,
                          dirStatsCache := Map.empty\<rparr>)]"
        and c = "browsingDocs\<lparr>currentPath := [], loading := True, dirStatsCache := Map.empty\<rparr>"]
    by simp
qed

text \<open>
  The claim as stated, a Browser key that lists the current prefix again, fails in the
  complete variant: in the state above \<open>r\<close> opens the rename dialog and dispatches
  nothing, and no key at all dispatches a listing of the prefix \<open>docs\<close>.
\<close>

theorem no_refresh_key_counterexample:
  "Update browsingDocs (KeyMsg ''r'') =
     Some (browsingDocs\<lparr>renameOriginal := ''docs/a.txt'', renameInput := ''a.txt'',
             renameCursor := 5, viewMode := ViewRename, err := None, statusMessage := []\<rparr>, [])
   \<and> \<not> (\<exists>k m' c. Update browsingDocs (KeyMsg k) = Some (m', [LoadObjects c])
             \<and> currentPath c = currentPath browsingDocs)"
proof -
  have r: "Update browsingDocs (KeyMsg ''r'') =
     Some (browsingDocs\<lparr>renameOriginal := ''docs/a.txt'', renameInput := ''a.txt'',
             renameCursor := 5, viewMode := ViewRename, err := None, statusMessage := []\<rparr>, [])"
    by (simp add: browsingDocs_fields updateBrowser_def filepath_Base_def lastElement_def)
  have "\<not> (\<exists>k m' c. Update browsingDocs (KeyMsg k) = Some (m', [LoadObjects c])
             \<and> currentPath c = currentPath browsingDocs)"
  proof
    assume "\<exists>k m' c. Update browsingDocs (KeyMsg k) = Some (m', [LoadObjects c])
             \<and> currentPath c = currentPath browsingDocs"
    then obtain k m' c where u: "updateBrowser browsingDocs k = Some (m', [LoadObjects c])"
      and p: "currentPath c = ''docs''"
      by (auto simp: browsingDocs_fields)
    from u p show False
      unfolding updateBrowser_def Let_def
      by (clarsimp simp: browsingDocs_fields split: if_splits)
  qed
  with r show ?thesis by blast
qed

section \<open>Error and status message\<close>

lemma updateBrowser_status:
  assumes "updateBrowser m k = Some (m', cs)" and "statusMessage m' \<noteq> statusMessage m"
    and "statusMessage m' \<noteq> []"
  shows "err m' = None"
  using assms unfolding updateBrowser_def Let_def
  by (clarsimp split: if_splits option.splits)

lemma updatePreview_status:
  "updatePreview m k = Some (m', cs) \<Longrightarrow> statusMessage m' = statusMessage m"
  unfolding updatePreview_def by (clarsimp split: if_splits)

lemma updateHelp_status:
  "updateHelp m k = Some (m', cs) \<Longrightarrow> statusMessage m' = statusMessage m"
  unfolding updateHelp_def by (clarsimp split: if_splits)

lemma updateUpload_status:
  "updateUpload m k = Some (m', cs) \<Longrightarrow> statusMessage m' = statusMessage m \<or> statusMessage m' = []"
  unfolding updateUpload_def by (clarsimp split: if_splits option.splits)

lemma updateRename_status:
  "updateRename m k = Some (m', cs) \<Longrightarrow> statusMessage m' = statusMessage m"
  unfolding updateRename_def Let_def
  by (clarsimp split: if_splits option.splits dest!: editRename_frame)

lemma updateConfirm_status:
  "updateConfirm m k = Some (m', cs) \<Longrightarrow> statusMessage m' = statusMessage m"
  unfolding updateConfirm_def Let_def by (clarsimp split: if_splits)

lemma Update_status:
  assumes "Update m msg = Some (m', cs)" and "statusMessage m' \<noteq> statusMessage m"
    and "statusMessage m' \<noteq> []"
  shows "err m' = None"
proof (cases msg)
  case (KeyMsg k)
  with assms show ?thesis
    using updateBrowser_status [of m k m' cs] updatePreview_status [of m k m' cs]
      updateHelp_status [of m k m' cs] updateUpload_status [of m k m' cs]
      updateRename_status [of m k m' cs] updateConfirm_status [of m k m' cs]
    by (cases "viewMode m") auto
qed (use assms in \<open>auto simp: Let_def split: option.splits if_splits\<close>)

lemma notices_at_most_one: "length (notices m) \<le> 1"
  by (simp add: notices_def split: ViewMode.splits option.splits)

text \<open>
  Claim C8, as the code has it. A view shows at most one of the error and the status
  message (the browser view shows the status message only when there is no error, the
  other views never show it). Every message after which the status message is changed
  and not empty leaves no error. The results of download, upload, delete, copy and
  rename that carry an error, and a status message flagged as an error, set the error
  and empty the status message.
\<close>

theorem error_or_status:
  "length (notices m) \<le> 1
   \<and> (Update m msg = Some (m', cs) \<and> statusMessage m' \<noteq> statusMessage m
        \<and> statusMessage m' \<noteq> [] \<longrightarrow> err m' = None)
   \<and> Update m (FileDownloadedMsg f (Some e)) =
        Some (m\<lparr>loading := False, err := Some e, statusMessage := []\<rparr>, [])
   \<and> Update m (FileUploadedMsg f (Some e)) =
        Some (m\<lparr>loading := False, err := Some e, statusMessage := []\<rparr>, [])
   \<and> Update m (FileDeletedMsg f (Some e)) =
        Some (m\<lparr>loading := False, err := Some e, statusMessage := []\<rparr>, [])
   \<and> Update m (FileCopiedMsg f g (Some e)) =
        Some (m\<lparr>loading := False, err := Some e, statusMessage := []\<rparr>, [])
   \<and> Update m (FileRenamedMsg f g (Some e)) =
        Some (m\<lparr>loading := False, err := Some e, statusMessage := []\<rparr>, [])
   \<and> Update m (StatusMsg t True) = Some (m\<lparr>err := Some (Errorf t), statusMessage := []\<rparr>, [])"
  using notices_at_most_one [of m] Update_status [of m msg m' cs] by simp

theorem error_or_status_witness:
  "Update (NewModel ''b'') (FileDeletedMsg ''a.txt'' None) =
     Some ((NewModel ''b'')\<lparr>loading := False, err := None,
             statusMessage := checkMark @ '' Deleted '' @ [CHR 0x27] @ ''a.txt'' @ [CHR 0x27]
                              @ '' successfully''\<rparr>,
           [LoadObjects ((NewModel ''b'')\<lparr>loading := False, err := None,
             statusMessage := checkMark @ '' Deleted '' @ [CHR 0x27] @ ''a.txt'' @ [CHR 0x27]
                              @ '' successfully''\<rparr>)])
   \<and> err ((NewModel ''b'')\<lparr>loading := False, err := None,
             statusMessage := checkMark @ '' Deleted '' @ [CHR 0x27] @ ''a.txt'' @ [CHR 0x27]
                              @ '' successfully''\<rparr>) = None"
  using error_or_status [where m = "NewModel ''b''" and msg = "FileDeletedMsg ''a.txt'' None"
      and m' = "(NewModel ''b'')\<lparr>loading := False, err := None,
             statusMessage := checkMark @ '' Deleted '' @ [CHR 0x27] @ ''a.txt'' @ [CHR 0x27]
                              @ '' successfully''\<rparr>"
      and cs = "[LoadObjects ((NewModel ''b'')\<lparr>loading := False, err := None,
             statusMessage := checkMark @ '' Deleted '' @ [CHR 0x27] @ ''a.txt'' @ [CHR 0x27]
                              @ '' successfully''\<rparr>)]"]
  by (simp add: Let_def NewModel_def)

text \<open>
  The claim as stated fails for the result of a listing: after a delete has succeeded,
  the listing it triggers fails, and the state then holds the listing's error together
  with the status message of the delete.
\<close>

definition staleStatus :: Model where
  "staleStatus =
     (NewModel ''b'')\<lparr>objects := oneFile, loading := False,
        err := Some (ErrorText ''failed to list objects: timeout''),
        statusMessage := checkMark @ '' Deleted '' @ [CHR 0x27] @ ''a.txt'' @ [CHR 0x27]
                         @ '' successfully''\<rparr>"

theorem stale_status_counterexample:
  "run (NewModel ''b'')
     [ObjectsLoadedMsg oneFile None, KeyMsg ''x'', KeyMsg ''y'', FileDeletedMsg ''a.txt'' None,
      ObjectsLoadedMsg [] (Some (ErrorText ''failed to list objects: timeout''))]
     = Some staleStatus
   \<and> err staleStatus = Some (ErrorText ''failed to list objects: timeout'')
   \<and> statusMessage staleStatus =
       checkMark @ '' Deleted '' @ [CHR 0x27] @ ''a.txt'' @ [CHR 0x27] @ '' successfully''
   \<and> statusMessage staleStatus \<noteq> []"
  by (simp add: staleStatus_def oneFile_def NewModel_def updateBrowser_def updateConfirm_def
        selected_def uncachedDirs_def checkMark_def Let_def)

section \<open>Listings are ordered\<close>

lemma set_insertBy: "set (insertBy lt x ys) = insert x (set ys)"
  by (induction ys) auto

lemma mset_insertBy: "mset (insertBy lt x ys) = add_mset x (mset ys)"
  by (induction ys) auto

lemma mset_sort_Slice: "mset (sort_Slice lt xs) = mset xs"
  by (induction xs) (simp_all add: sort_Slice_def mset_insertBy)

lemma sorted_insertBy:
  assumes asym: "\<And>a b. lt a b \<Longrightarrow> \<not> lt b a"
    and trans: "\<And>a b c. \<not> lt b a \<Longrightarrow> \<not> lt c b \<Longrightarrow> \<not> lt c a"
    and sorted: "sorted_wrt (\<lambda>a b. \<not> lt b a) ys"
  shows "sorted_wrt (\<lambda>a b. \<not> lt b a) (insertBy lt x ys)"
  using sorted
proof (induction ys)
  case Nil
  then show ?case by simp
next
  case (Cons y ys)
  show ?case
  proof (cases "lt x y")
    case True
    then have xy: "\<not> lt y x" by (rule asym)
    have "\<forall>z\<in>set ys. \<not> lt z x"
    proof
      fix z assume "z \<in> set ys"
      with Cons.prems have "\<not> lt z y" by simp
      with xy show "\<not> lt z x" by (rule trans)
    qed
    with True xy Cons.prems show ?thesis by simp
  next
    case False
    with Cons show ?thesis by (auto simp: set_insertBy)
  qed
qed

lemma sorted_sort_Slice:
  assumes "\<And>a b. lt a b \<Longrightarrow> \<not> lt b a"
    and "\<And>a b c. \<not> lt b a \<Longrightarrow> \<not> lt c b \<Longrightarrow> \<not> lt c a"
  shows "sorted_wrt (\<lambda>a b. \<not> lt b a) (sort_Slice lt xs)"
proof (induction xs)
  case Nil
  show ?case by (simp add: sort_Slice_def)
next
  case (Cons x xs)
  have "sorted_wrt (\<lambda>a b. \<not> lt b a) (insertBy lt x (sort_Slice lt xs))"
    using assms(1) assms(2) Cons.IH by (rule sorted_insertBy)
  then show ?case by (simp add: sort_Slice_def)
qed

lemma objectLess_asym: "objectLess a b \<Longrightarrow> \<not> objectLess b a"
  unfolding objectLess_def by (cases "IsDir a = IsDir b") auto

lemma objectLess_trans:
  "\<not> objectLess b a \<Longrightarrow> \<not> objectLess c b \<Longrightarrow> \<not> objectLess c a"
  unfolding objectLess_def
  by (cases "IsDir a"; cases "IsDir b"; cases "IsDir c") auto

lemma localLess_asym: "localLess a b \<Longrightarrow> \<not> localLess b a"
  unfolding localLess_def by (cases "itemIsDir a = itemIsDir b") auto

lemma localLess_trans:
  "\<not> localLess b a \<Longrightarrow> \<not> localLess c b \<Longrightarrow> \<not> localLess c a"
  unfolding localLess_def
  by (cases "itemIsDir a"; cases "itemIsDir b"; cases "itemIsDir c") auto

lemma sorted_objects: "sorted_wrt (\<lambda>a b. \<not> objectLess b a) (sort_Slice objectLess objs)"
  by (rule sorted_sort_Slice) (fact objectLess_asym, fact objectLess_trans)

lemma sorted_locals: "sorted_wrt (\<lambda>a b. \<not> localLess b a) (sort_Slice localLess items)"
  by (rule sorted_sort_Slice) (fact localLess_asym, fact localLess_trans)

lemma ordered_objects:
  assumes "fst (loadObjects be m tr) = ObjectsLoadedMsg objs e" and "i < j" and "j < length objs"
  shows "\<not> objectLess (objs ! j) (objs ! i)"
proof -
  have "objs = [] \<or> (\<exists>xs. objs = sort_Slice objectLess xs)"
    using assms(1) unfolding loadObjects_def
    by (auto split: prod.splits sum.splits)
  with assms(3) obtain xs where "objs = sort_Slice objectLess xs" by auto
  with sorted_objects [of xs] assms(2,3) show ?thesis
    by (simp add: sorted_wrt_iff_nth_less)
qed

lemma ordered_locals:
  assumes "fst (loadLocalFiles be path tr) = LocalFilesLoadedMsg items p e" and "i < j"
    and "j < length items"
  shows "\<not> localLess (items ! j) (items ! i)"
proof -
  have "items = [] \<or> (\<exists>xs. items = sort_Slice localLess xs)"
    using assms(1) unfolding loadLocalFiles_def
    by (auto split: prod.splits sum.splits)
  with assms(3) obtain xs where "items = sort_Slice localLess xs" by auto
  with sorted_locals [of xs] assms(2,3) show ?thesis
    by (simp add: sorted_wrt_iff_nth_less)
qed

lemma updateScroll_lists [simp]:
  "localItems (updateScroll m) = localItems m"
  by (simp add: updateScroll_def Let_def)

lemma editRename_lists:
  "editRename m k = Some m' \<Longrightarrow> objects m' = objects m \<and> localItems m' = localItems m"
  unfolding editRename_def Let_def
  by (clarsimp split: if_splits option.splits prod.splits)

lemma clampRenameCursor_lists [simp]:
  "objects (clampRenameCursor m) = objects m" "localItems (clampRenameCursor m) = localItems m"
  by (simp_all add: clampRenameCursor_def Let_def)

lemma updateBrowser_lists:
  "updateBrowser m k = Some (m', cs) \<Longrightarrow> objects m' = objects m \<and> localItems m' = localItems m"
  unfolding updateBrowser_def Let_def
  by (clarsimp split: if_splits option.splits)

lemma updatePreview_lists:
  "updatePreview m k = Some (m', cs) \<Longrightarrow> objects m' = objects m \<and> localItems m' = localItems m"
  unfolding updatePreview_def by (clarsimp split: if_splits)

lemma updateHelp_lists:
  "updateHelp m k = Some (m', cs) \<Longrightarrow> objects m' = objects m \<and> localItems m' = localItems m"
  unfolding updateHelp_def by (clarsimp split: if_splits)

lemma updateUpload_lists:
  "updateUpload m k = Some (m', cs) \<Longrightarrow> objects m' = objects m \<and> localItems m' = localItems m"
  unfolding updateUpload_def by (clarsimp split: if_splits option.splits)

lemma updateRename_lists:
  "updateRename m k = Some (m', cs) \<Longrightarrow> objects m' = objects m \<and> localItems m' = localItems m"
  unfolding updateRename_def Let_def
  by (clarsimp split: if_splits option.splits dest!: editRename_lists)

lemma updateConfirm_lists:
  "updateConfirm m k = Some (m', cs) \<Longrightarrow> objects m' = objects m \<and> localItems m' = localItems m"
  unfolding updateConfirm_def Let_def by (clarsimp split: if_splits)

text \<open>The listing of the model changes only by taking the listing of an
  \<open>objectsLoadedMsg\<close>, and the local listing only by taking that of a
  \<open>localFilesLoadedMsg\<close>.\<close>

lemma Update_lists:
  assumes "Update m msg = Some (m', cs)"
  shows "(objects m' = objects m \<or> (\<exists>e. msg = ObjectsLoadedMsg (objects m') e))
         \<and> (localItems m' = localItems m \<or> (\<exists>p e. msg = LocalFilesLoadedMsg (localItems m') p e))"
proof (cases msg)
  case (KeyMsg k)
  with assms show ?thesis
    using updateBrowser_lists [of m k m' cs] updatePreview_lists [of m k m' cs]
      updateHelp_lists [of m k m' cs] updateUpload_lists [of m k m' cs]
      updateRename_lists [of m k m' cs] updateConfirm_lists [of m k m' cs]
    by (cases "viewMode m") auto
qed (use assms in \<open>auto simp: Let_def split: option.splits if_splits\<close>)

text \<open>
  Claim C4. In the listing that \<open>loadObjects\<close> returns, and in the local listing that
  \<open>loadLocalFiles\<close> returns, for any two positions \<open>i < j\<close>: if the entry at \<open>j\<close> is
  a directory then so is the entry at \<open>i\<close> (no file comes before a directory), and
  if both are directories or both are files then the key (the name) at \<open>i\<close> is at most
  the one at \<open>j\<close> in the bytewise lexicographic order. These are the listings the
  interface presents: a step of \<open>Update\<close> changes the listing of the model only by taking
  the one of an \<open>objectsLoadedMsg\<close>, and the local listing only by taking the one of a
  \<open>localFilesLoadedMsg\<close>, as they are.
\<close>

theorem listings_ordered:
  "(fst (loadObjects be m tr) = ObjectsLoadedMsg objs e \<and> i < j \<and> j < length objs \<longrightarrow>
      (IsDir (objs ! j) \<longrightarrow> IsDir (objs ! i))
      \<and> (IsDir (objs ! i) = IsDir (objs ! j) \<longrightarrow> Key (objs ! i) \<le> Key (objs ! j)))
   \<and> (fst (loadLocalFiles be path tr) = LocalFilesLoadedMsg items p e' \<and> i < j \<and> j < length items \<longrightarrow>
      (itemIsDir (items ! j) \<longrightarrow> itemIsDir (items ! i))
      \<and> (itemIsDir (items ! i) = itemIsDir (items ! j) \<longrightarrow> Name (items ! i) \<le> Name (items ! j)))
   \<and> (Update s msg = Some (s', cs) \<longrightarrow>
      (objects s' = objects s \<or> (\<exists>x. msg = ObjectsLoadedMsg (objects s') x))
      \<and> (localItems s' = localItems s
          \<or> (\<exists>q x. msg = LocalFilesLoadedMsg (localItems s') q x)))"
proof -
  have 1: "(IsDir (objs ! j) \<longrightarrow> IsDir (objs ! i))
      \<and> (IsDir (objs ! i) = IsDir (objs ! j) \<longrightarrow> Key (objs ! i) \<le> Key (objs ! j))"
    if "fst (loadObjects be m tr) = ObjectsLoadedMsg objs e" "i < j" "j < length objs"
    using ordered_objects [OF that] unfolding objectLess_def
    by (cases "IsDir (objs ! i)"; cases "IsDir (objs ! j)") auto
  have 2: "(itemIsDir (items ! j) \<longrightarrow> itemIsDir (items ! i))
      \<and> (itemIsDir (items ! i) = itemIsDir (items ! j) \<longrightarrow> Name (items ! i) \<le> Name (items ! j))"
    if "fst (loadLocalFiles be path tr) = LocalFilesLoadedMsg items p e'" "i < j" "j < length items"
    using ordered_locals [OF that] unfolding localLess_def
    by (cases "itemIsDir (items ! i)"; cases "itemIsDir (items ! j)") auto
  have 3: "Update s msg = Some (s', cs) \<longrightarrow>
      (objects s' = objects s \<or> (\<exists>x. msg = ObjectsLoadedMsg (objects s') x))
      \<and> (localItems s' = localItems s
          \<or> (\<exists>q x. msg = LocalFilesLoadedMsg (localItems s') q x))"
    by (intro impI) (rule Update_lists)
  have 12: "(fst (loadObjects be m tr) = ObjectsLoadedMsg objs e \<and> i < j \<and> j < length objs \<longrightarrow>
      (IsDir (objs ! j) \<longrightarrow> IsDir (objs ! i))
      \<and> (IsDir (objs ! i) = IsDir (objs ! j) \<longrightarrow> Key (objs ! i) \<le> Key (objs ! j)))
   \<and> (fst (loadLocalFiles be path tr) = LocalFilesLoadedMsg items p e' \<and> i < j \<and> j < length items \<longrightarrow>
      (itemIsDir (items ! j) \<longrightarrow> itemIsDir (items ! i))
      \<and> (itemIsDir (items ! i) = itemIsDir (items ! j) \<longrightarrow> Name (items ! i) \<le> Name (items ! j)))"
    using 1 2 by blast
  show ?thesis
    using conjunct1 [OF 12] conjunct2 [OF 12] 3 by (intro conjI)
qed

text \<open>The sample store and the local directory, listed.\<close>

theorem listings_ordered_witness:
  "fst (loadObjects sampleStore ((NewModel ''b'')\<lparr>currentPath := ''docs''\<rparr>) []) =
     ObjectsLoadedMsg
       [\<lparr>Key = ''docs/alpha'', Size = 0, LastModified = [], IsDir = True\<rparr>,
        \<lparr>Key = ''docs/zeta'', Size = 0, LastModified = [], IsDir = True\<rparr>,
        \<lparr>Key = ''docs/a.txt'', Size = 1, LastModified = ''2024-01-03 10:00:00'', IsDir = False\<rparr>,
        \<lparr>Key = ''docs/b.txt'', Size = 2, LastModified = ''2024-01-02 10:00:00'', IsDir = False\<rparr>]
       None
   \<and> fst (loadLocalFiles sampleStore ''.'' []) =
     LocalFilesLoadedMsg
       [\<lparr>Name = ''..'', itemIsDir = True, itemSize = 0\<rparr>,
        \<lparr>Name = ''src'', itemIsDir = True, itemSize = 0\<rparr>,
        \<lparr>Name = ''a.txt'', itemIsDir = False, itemSize = 1\<rparr>,
        \<lparr>Name = ''b.txt'', itemIsDir = False, itemSize = 2\<rparr>]
       ''.'' None
   \<and> ''docs/a.txt'' \<le> ''docs/b.txt'' \<and> ''..'' \<le> ''src''"
proof -
  have a: "fst (loadObjects sampleStore ((NewModel ''b'')\<lparr>currentPath := ''docs''\<rparr>) []) =
     ObjectsLoadedMsg
       [\<lparr>Key = ''docs/alpha'', Size = 0, LastModified = [], IsDir = True\<rparr>,
        \<lparr>Key = ''docs/zeta'', Size = 0, LastModified = [], IsDir = True\<rparr>,
        \<lparr>Key = ''docs/a.txt'', Size = 1, LastModified = ''2024-01-03 10:00:00'', IsDir = False\<rparr>,
        \<lparr>Key = ''docs/b.txt'', Size = 2, LastModified = ''2024-01-02 10:00:00'', IsDir = False\<rparr>]
       None"
    by (simp add: loadObjects_def ListObjects_def sampleStore_def NewModel_def withSlash_def
          HasSuffix_def TrimSuffix_def sort_Slice_def objectLess_def)
  have b: "fst (loadLocalFiles sampleStore ''.'' []) =
     LocalFilesLoadedMsg
       [\<lparr>Name = ''..'', itemIsDir = True, itemSize = 0\<rparr>,
        \<lparr>Name = ''src'', itemIsDir = True, itemSize = 0\<rparr>,
        \<lparr>Name = ''a.txt'', itemIsDir = False, itemSize = 1\<rparr>,
        \<lparr>Name = ''b.txt'', itemIsDir = False, itemSize = 2\<rparr>]
       ''.'' None"
    by (simp add: loadLocalFiles_def sampleStore_def HasPrefix_def sort_Slice_def localLess_def)
  show ?thesis
    using a b
      listings_ordered [where be = sampleStore and m = "(NewModel ''b'')\<lparr>currentPath := ''docs''\<rparr>"
        and tr = "[]" and path = "''.''" and i = 2 and j = 3, unfolded a b]
      listings_ordered [where be = sampleStore and m = "(NewModel ''b'')\<lparr>currentPath := ''docs''\<rparr>"
        and tr = "[]" and path = "''.''" and i = 0 and j = 1, unfolded a b]
    by simp
qed


section \<open>Destinations of a paste\<close>

lemma digit_numerals:
  "digit 0 = CHR ''0''" "digit 1 = CHR ''1''" "digit 2 = CHR ''2''" "digit 3 = CHR ''3''"
  "digit 4 = CHR ''4''" "digit 5 = CHR ''5''" "digit 6 = CHR ''6''" "digit 7 = CHR ''7''"
  "digit 8 = CHR ''8''" "digit 9 = CHR ''9''" "digit (Suc 0) = CHR ''1''"
  by code_simp+

lemma uniqueKey_least:
  "\<exists>N. counter \<le> N
       \<and> uniqueKey m name ext counter = inCurrentPath m (copyName name ext N)
       \<and> \<not> keyExists m (inCurrentPath m (copyName name ext N))
       \<and> (\<forall>k. counter \<le> k \<and> k < N \<longrightarrow> keyExists m (inCurrentPath m (copyName name ext k)))"
proof (induction m name ext counter rule: uniqueKey.induct)
  case (1 m name ext counter)
  show ?case
  proof (cases "keyExists m (inCurrentPath m (copyName name ext counter))")
    case False
    then have "uniqueKey m name ext counter = inCurrentPath m (copyName name ext counter)"
      by (subst uniqueKey.simps) simp
    with False show ?thesis
      by (intro exI [of _ counter]) auto
  next
    case True
    then have eq: "uniqueKey m name ext counter = uniqueKey m name ext (counter + 1)"
      by (subst uniqueKey.simps) simp
    from "1.IH" [OF True] obtain N where N: "counter + 1 \<le> N"
      "uniqueKey m name ext (counter + 1) = inCurrentPath m (copyName name ext N)"
      "\<not> keyExists m (inCurrentPath m (copyName name ext N))"
      "\<forall>k. counter + 1 \<le> k \<and> k < N \<longrightarrow> keyExists m (inCurrentPath m (copyName name ext k))"
      by blast
    have "\<forall>k. counter \<le> k \<and> k < N \<longrightarrow> keyExists m (inCurrentPath m (copyName name ext k))"
    proof (intro allI impI)
      fix k assume k: "counter \<le> k \<and> k < N"
      show "keyExists m (inCurrentPath m (copyName name ext k))"
      proof (cases "k = counter")
        case True
        with \<open>keyExists m (inCurrentPath m (copyName name ext counter))\<close> show ?thesis by simp
      next
        case False
        with k have "counter + 1 \<le> k \<and> k < N" by simp
        with N(4) show ?thesis by blast
      qed
    qed
    with N eq show ?thesis
      by (intro exI [of _ N]) simp
  qed
qed

lemma rev_split:
  assumes "rev e = a @ b"
  shows "e = rev b @ rev a"
proof -
  from assms have "rev (rev e) = rev (a @ b)" by (rule arg_cong)
  then show ?thesis by simp
qed

lemma lastElement_suffix: "\<exists>pre. path = pre @ lastElement path"
proof -
  have "rev path = takeWhile (\<lambda>c. c \<noteq> CHR ''/'') (rev path) @ dropWhile (\<lambda>c. c \<noteq> CHR ''/'') (rev path)"
    by simp
  then have "path = rev (dropWhile (\<lambda>c. c \<noteq> CHR ''/'') (rev path))
                    @ rev (takeWhile (\<lambda>c. c \<noteq> CHR ''/'') (rev path))"
    by (rule rev_split)
  then have "path = rev (dropWhile (\<lambda>c. c \<noteq> CHR ''/'') (rev path)) @ lastElement path"
    by (simp only: lastElement_def)
  then show ?thesis ..
qed

lemma Ext_suffix: "\<exists>pre. path = pre @ filepath_Ext path"
proof (cases "CHR ''.'' \<in> set (lastElement path)")
  case False
  then show ?thesis by (simp add: filepath_Ext_def)
next
  case True
  define e where "e = lastElement path"
  define tw where "tw = takeWhile (\<lambda>c. c \<noteq> CHR ''.'') (rev e)"
  define dw where "dw = dropWhile (\<lambda>c. c \<noteq> CHR ''.'') (rev e)"
  from True have "CHR ''.'' \<in> set (rev e)" by (simp add: e_def)
  then have ne: "dw \<noteq> []" unfolding dw_def by (simp add: dropWhile_eq_Nil_conv)
  then have "\<not> (hd dw \<noteq> CHR ''.'')" unfolding dw_def by (rule hd_dropWhile)
  with ne obtain rest where d: "dw = CHR ''.'' # rest" by (cases dw) auto
  have "rev e = tw @ dw" by (simp add: tw_def dw_def)
  then have "e = rev dw @ rev tw" by (rule rev_split)
  with d have "e = rev rest @ CHR ''.'' # rev tw" by simp
  moreover from True have "filepath_Ext path = CHR ''.'' # rev tw"
    by (simp add: filepath_Ext_def tw_def e_def)
  ultimately have e: "e = rev rest @ filepath_Ext path" by simp
  from lastElement_suffix obtain pre where "path = pre @ e" unfolding e_def by blast
  with e have "path = (pre @ rev rest) @ filepath_Ext path" by simp
  then show ?thesis ..
qed

lemma TrimSuffix_Ext: "TrimSuffix path (filepath_Ext path) @ filepath_Ext path = path"
proof -
  from Ext_suffix obtain pre where p: "path = pre @ filepath_Ext path" by blast
  have "TrimSuffix (pre @ filepath_Ext path) (filepath_Ext path) = pre"
    by (simp add: TrimSuffix_def HasSuffix_def)
  with p show ?thesis by simp
qed

lemma pasteLoop_trace:
  "snd (snd (pasteLoop be m ys copied errors tr)) =
     tr @ map (\<lambda>y. CopyObjectCall (bucket m) (destKey m y) (bucket m @ ''/'' @ y)) ys"
proof (induction ys arbitrary: copied errors tr)
  case Nil
  show ?case by simp
next
  case (Cons y ys)
  show ?case
    by (cases "sdkCopyObject be tr (bucket m) (destKey m y) (bucket m @ ''/'' @ y)")
       (simp_all add: CopyObject_def Let_def Cons.IH)
qed

lemma pasteFiles_trace:
  "snd (pasteFiles be m tr) =
     tr @ map (\<lambda>y. CopyObjectCall (bucket m) (destKey m y) (bucket m @ ''/'' @ y)) (yankedFiles m)"
proof (cases "yankedFiles m = []")
  case True
  then show ?thesis by (simp add: pasteFiles_def)
next
  case False
  obtain copied errors tr' where l: "pasteLoop be m (yankedFiles m) [] [] tr = (copied, errors, tr')"
    by (metis prod_cases3)
  with pasteLoop_trace [of be m "yankedFiles m" "[]" "[]" tr]
  have "tr' = tr @ map (\<lambda>y. CopyObjectCall (bucket m) (destKey m y) (bucket m @ ''/'' @ y)) (yankedFiles m)"
    by simp
  with False l show ?thesis by (simp add: pasteFiles_def)
qed

text \<open>
  Claim C1. \<open>pasteFiles\<close> requests one copy per yanked key, in order, to the key
  \<open>destKey\<close>. With \<open>filename\<close> the base name of the yanked key, \<open>ext\<close> its extension
  and \<open>name\<close> the rest (so that \<open>name @ ext = filename\<close>): if the key of \<open>filename\<close>
  under the current path is not in the listing, that key is the destination, with no
  suffix; if it is in the listing, the destination is the key of \<open>name_copy_N ext\<close>
  under the current path for some \<open>N \<ge> 1\<close>, it is not in the listing, and for every
  \<open>k\<close> from 1 below \<open>N\<close> the key of \<open>name_copy_k ext\<close> is in the listing.
\<close>

theorem paste_destinations:
  "snd (pasteFiles be m tr) =
     tr @ map (\<lambda>y. CopyObjectCall (bucket m) (destKey m y) (bucket m @ ''/'' @ y)) (yankedFiles m)
   \<and> TrimSuffix (filepath_Base y) (filepath_Ext (filepath_Base y)) @ filepath_Ext (filepath_Base y)
       = filepath_Base y
   \<and> (\<not> keyExists m (inCurrentPath m (filepath_Base y)) \<longrightarrow>
        destKey m y = inCurrentPath m (filepath_Base y))
   \<and> (keyExists m (inCurrentPath m (filepath_Base y)) \<longrightarrow>
        (\<exists>N. 1 \<le> N
           \<and> destKey m y =
               inCurrentPath m
                 (TrimSuffix (filepath_Base y) (filepath_Ext (filepath_Base y)) @ ''_copy_''
                  @ Itoa N @ filepath_Ext (filepath_Base y))
           \<and> \<not> keyExists m (destKey m y)
           \<and> (\<forall>k. 1 \<le> k \<and> k < N \<longrightarrow>
                keyExists m
                  (inCurrentPath m
                     (TrimSuffix (filepath_Base y) (filepath_Ext (filepath_Base y)) @ ''_copy_''
                      @ Itoa k @ filepath_Ext (filepath_Base y))))))"
proof -
  let ?f = "filepath_Base y"
  let ?ext = "filepath_Ext ?f"
  let ?name = "TrimSuffix ?f ?ext"
  have a: "\<not> keyExists m (inCurrentPath m ?f) \<longrightarrow> destKey m y = inCurrentPath m ?f"
    by (simp add: destKey_def Let_def)
  have b: "keyExists m (inCurrentPath m ?f) \<longrightarrow>
        (\<exists>N. 1 \<le> N
           \<and> destKey m y = inCurrentPath m (?name @ ''_copy_'' @ Itoa N @ ?ext)
           \<and> \<not> keyExists m (destKey m y)
           \<and> (\<forall>k. 1 \<le> k \<and> k < N \<longrightarrow>
                keyExists m (inCurrentPath m (?name @ ''_copy_'' @ Itoa k @ ?ext))))"
  proof
    assume ex: "keyExists m (inCurrentPath m ?f)"
    then have d: "destKey m y = uniqueKey m ?name ?ext 1"
      by (simp add: destKey_def Let_def)
    from uniqueKey_least [of 1 m ?name ?ext] obtain N where "1 \<le> N"
      "uniqueKey m ?name ?ext 1 = inCurrentPath m (copyName ?name ?ext N)"
      "\<not> keyExists m (inCurrentPath m (copyName ?name ?ext N))"
      "\<forall>k. 1 \<le> k \<and> k < N \<longrightarrow> keyExists m (inCurrentPath m (copyName ?name ?ext k))"
      by blast
    with d show "\<exists>N. 1 \<le> N
           \<and> destKey m y = inCurrentPath m (?name @ ''_copy_'' @ Itoa N @ ?ext)
           \<and> \<not> keyExists m (destKey m y)
           \<and> (\<forall>k. 1 \<le> k \<and> k < N \<longrightarrow>
                keyExists m (inCurrentPath m (?name @ ''_copy_'' @ Itoa k @ ?ext)))"
      by (intro exI [of _ N]) (simp add: copyName_def)
  qed
  show ?thesis
    by (intro conjI) (rule pasteFiles_trace, rule TrimSuffix_Ext, rule a, rule b)
qed

text \<open>Two keys yanked in \<open>src\<close> and pasted into \<open>dst\<close>, which already has \<open>a.txt\<close>
  and \<open>a_copy_1.txt\<close>.\<close>

definition pasting :: Model where
  "pasting =
     (NewModel ''b'')\<lparr>currentPath := ''dst'',
        objects := [\<lparr>Key = ''dst/a.txt'', Size = 1, LastModified = [], IsDir = False\<rparr>,
                    \<lparr>Key = ''dst/a_copy_1.txt'', Size = 1, LastModified = [], IsDir = False\<rparr>],
        loading := False, yankedFiles := [''src/a.txt'', ''src/b.txt'']\<rparr>"

lemma pasting_fields:
  "bucket pasting = ''b''" "currentPath pasting = ''dst''"
  "yankedFiles pasting = [''src/a.txt'', ''src/b.txt'']"
  "map Key (objects pasting) = [''dst/a.txt'', ''dst/a_copy_1.txt'']"
  by (simp_all add: pasting_def NewModel_def)

lemma pasting_destKeys:
  "destKey pasting ''src/a.txt'' = ''dst/a_copy_2.txt''"
  "destKey pasting ''src/b.txt'' = ''dst/b.txt''"
  by (simp_all add: destKey_def Let_def filepath_Base_def filepath_Ext_def lastElement_def
        TrimSuffix_def HasSuffix_def inCurrentPath_def keyExists_def pasting_fields
        uniqueKey.simps copyName_def Itoa_def digits.simps digit_numerals)

theorem paste_destinations_witness:
  "snd (pasteFiles sampleStore pasting []) =
     [CopyObjectCall ''b'' ''dst/a_copy_2.txt'' ''b/src/a.txt'',
      CopyObjectCall ''b'' ''dst/b.txt'' ''b/src/b.txt'']
   \<and> keyExists pasting ''dst/a.txt'' \<and> keyExists pasting ''dst/a_copy_1.txt''
   \<and> \<not> keyExists pasting ''dst/a_copy_2.txt'' \<and> \<not> keyExists pasting ''dst/b.txt''"
  using paste_destinations [of sampleStore pasting "[]" "''src/a.txt''"]
  by (simp add: pasting_fields pasting_destKeys keyExists_def)

lemma pasteFiles_message:
  "fst (pasteFiles sampleStore pasting []) = FileCopiedMsg ''2 files'' ''a_copy_2.txt, b.txt'' None"
  by (simp add: pasteFiles_def pasting_fields pasting_destKeys CopyObject_def sampleStore_def
        Let_def filepath_Base_def lastElement_def Itoa_def digits.simps digit_numerals)


section \<open>The cache of directory statistics\<close>

lemma updateBrowser_cache:
  "updateBrowser m k = Some (m', cs) \<Longrightarrow>
     dirStatsCache m' = dirStatsCache m \<or> dirStatsCache m' = Map.empty"
  unfolding updateBrowser_def Let_def
  by (clarsimp split: if_splits option.splits)

lemma updatePreview_cache:
  "updatePreview m k = Some (m', cs) \<Longrightarrow> dirStatsCache m' = dirStatsCache m"
  unfolding updatePreview_def by (clarsimp split: if_splits)

lemma updateHelp_cache:
  "updateHelp m k = Some (m', cs) \<Longrightarrow> dirStatsCache m' = dirStatsCache m"
  unfolding updateHelp_def by (clarsimp split: if_splits)

lemma updateUpload_cache:
  "updateUpload m k = Some (m', cs) \<Longrightarrow> dirStatsCache m' = dirStatsCache m"
  unfolding updateUpload_def by (clarsimp split: if_splits option.splits)

lemma updateRename_cache:
  "updateRename m k = Some (m', cs) \<Longrightarrow> dirStatsCache m' = dirStatsCache m"
  unfolding updateRename_def Let_def
  by (clarsimp split: if_splits option.splits dest!: editRename_frame)

lemma updateConfirm_cache:
  "updateConfirm m k = Some (m', cs) \<Longrightarrow> dirStatsCache m' = dirStatsCache m"
  unfolding updateConfirm_def Let_def by (clarsimp split: if_splits)

text \<open>A step of \<open>Update\<close> keeps the cache, empties it, or stores the four values of one
  \<open>dirStatsMsg\<close> under its key.\<close>

lemma Update_cache:
  assumes "Update m msg = Some (m', cs)"
  shows "dirStatsCache m' = dirStatsCache m \<or> dirStatsCache m' = Map.empty
         \<or> (\<exists>dirKey sz modified st dt.
               msg = DirStatsMsg dirKey sz modified st dt
               \<and> dirStatsCache m' = (dirStatsCache m)(dirKey \<mapsto>
                    \<lparr>statsSize = sz, statsLastModified = modified, SizeTimeout = st,
                     DateTimeout = dt\<rparr>))"
proof (cases msg)
  case (KeyMsg k)
  with assms show ?thesis
    using updateBrowser_cache [of m k m' cs] updatePreview_cache [of m k m' cs]
      updateHelp_cache [of m k m' cs] updateUpload_cache [of m k m' cs]
      updateRename_cache [of m k m' cs] updateConfirm_cache [of m k m' cs]
    by (cases "viewMode m") auto
qed (use assms in \<open>auto simp: Let_def split: option.splits if_splits\<close>)

lemma calculateDirStats_message:
  assumes "fst (calculateDirStats be c tr dirKey sizeRace dateRace) = DirStatsMsg k sz modified st dt"
  shows "k = dirKey \<and> (st \<longrightarrow> sz = 0) \<and> (dt \<longrightarrow> modified = ''N/A'')"
  using assms unfolding calculateDirStats_def Let_def
  by (auto split: prod.splits race.splits sum.splits)

lemma delivered_stats:
  assumes "delivered (DirStatsMsg k sz modified st dt)"
  shows "\<exists>be c tr sizeRace dateRace.
           fst (calculateDirStats be c tr k sizeRace dateRace) = DirStatsMsg k sz modified st dt"
  using assms
proof (cases rule: delivered.cases)
  case (stats be c tr dirKey sizeRace dateRace)
  then have eq: "fst (calculateDirStats be c tr dirKey sizeRace dateRace) = DirStatsMsg k sz modified st dt"
    by simp
  with calculateDirStats_message [OF eq] show ?thesis by blast
next
  case other
  then show ?thesis by blast
qed

lemma reachable_cache:
  assumes "reachable m" and "dirStatsCache m k = Some entry"
  shows "\<exists>be c tr sizeRace dateRace.
           fst (calculateDirStats be c tr k sizeRace dateRace) =
             DirStatsMsg k (statsSize entry) (statsLastModified entry) (SizeTimeout entry)
               (DateTimeout entry)"
  using assms
proof (induction arbitrary: k entry rule: reachable.induct)
  case (init b)
  then show ?case by (simp add: NewModel_def)
next
  case (step m msg m' cmds)
  from Update_cache [OF step.hyps(3)] consider
      "dirStatsCache m' = dirStatsCache m" | "dirStatsCache m' = Map.empty"
    | dirKey sz modified st dt where "msg = DirStatsMsg dirKey sz modified st dt"
        "dirStatsCache m' = (dirStatsCache m)(dirKey \<mapsto>
            \<lparr>statsSize = sz, statsLastModified = modified, SizeTimeout = st, DateTimeout = dt\<rparr>)"
    by blast
  then show ?case
  proof cases
    case 1
    with step.IH step.prems show ?thesis by simp
  next
    case 2
    with step.prems show ?thesis by simp
  next
    case 3
    show ?thesis
    proof (cases "k = dirKey")
      case True
      with 3(2) step.prems have "entry = \<lparr>statsSize = sz, statsLastModified = modified,
          SizeTimeout = st, DateTimeout = dt\<rparr>"
        by simp
      moreover from step.hyps(2) 3(1) have "delivered (DirStatsMsg dirKey sz modified st dt)"
        by simp
      ultimately show ?thesis
        using delivered_stats [of dirKey sz modified st dt] True by simp
    next
      case False
      with 3(2) step.prems have "dirStatsCache m k = Some entry" by simp
      with step.IH show ?thesis by blast
    qed
  qed
qed

text \<open>
  Claim C5. In every reachable state, an entry of the cache under a key is the record of
  the four values of one message that \<open>calculateDirStats\<close> returned for that key: the
  size with its timeout flag and the date with its timeout flag, both decided (a flag
  that is set comes with the placeholder \<open>0\<close>, respectively \<open>N/A\<close>). And one step of
  \<open>Update\<close> leaves the cache as it is, empties it, or stores such a whole record under
  the key of the \<open>dirStatsMsg\<close> it handles: no step writes one dimension alone. In the
  model the two \<open>select\<close> statements of \<open>calculateDirStats\<close> have each fired before
  the message exists, which is how the source returns it.
\<close>

theorem stats_cache_records:
  "(reachable m \<and> dirStatsCache m k = Some entry \<longrightarrow>
      (\<exists>be c tr sizeRace dateRace.
          fst (calculateDirStats be c tr k sizeRace dateRace) =
            DirStatsMsg k (statsSize entry) (statsLastModified entry) (SizeTimeout entry)
              (DateTimeout entry))
      \<and> (SizeTimeout entry \<longrightarrow> statsSize entry = 0)
      \<and> (DateTimeout entry \<longrightarrow> statsLastModified entry = ''N/A''))
   \<and> (Update s msg = Some (s', cs) \<longrightarrow>
        dirStatsCache s' = dirStatsCache s \<or> dirStatsCache s' = Map.empty
        \<or> (\<exists>dirKey sz modified st dt.
              msg = DirStatsMsg dirKey sz modified st dt
              \<and> dirStatsCache s' = (dirStatsCache s)(dirKey \<mapsto>
                   \<lparr>statsSize = sz, statsLastModified = modified, SizeTimeout = st,
                    DateTimeout = dt\<rparr>)))"
proof -
  have "(\<exists>be c tr sizeRace dateRace.
          fst (calculateDirStats be c tr k sizeRace dateRace) =
            DirStatsMsg k (statsSize entry) (statsLastModified entry) (SizeTimeout entry)
              (DateTimeout entry))
      \<and> (SizeTimeout entry \<longrightarrow> statsSize entry = 0)
      \<and> (DateTimeout entry \<longrightarrow> statsLastModified entry = ''N/A'')"
    if r: "reachable m" "dirStatsCache m k = Some entry"
  proof -
    from reachable_cache [OF r] obtain be c tr sizeRace dateRace where
      eq: "fst (calculateDirStats be c tr k sizeRace dateRace) =
             DirStatsMsg k (statsSize entry) (statsLastModified entry) (SizeTimeout entry)
               (DateTimeout entry)"
      by blast
    with calculateDirStats_message [OF eq] show ?thesis by blast
  qed
  then have A: "reachable m \<and> dirStatsCache m k = Some entry \<longrightarrow>
      (\<exists>be c tr sizeRace dateRace.
          fst (calculateDirStats be c tr k sizeRace dateRace) =
            DirStatsMsg k (statsSize entry) (statsLastModified entry) (SizeTimeout entry)
              (DateTimeout entry))
      \<and> (SizeTimeout entry \<longrightarrow> statsSize entry = 0)
      \<and> (DateTimeout entry \<longrightarrow> statsLastModified entry = ''N/A'')"
    by (intro impI) (elim conjE)
  have B: "Update s msg = Some (s', cs) \<longrightarrow>
        dirStatsCache s' = dirStatsCache s \<or> dirStatsCache s' = Map.empty
        \<or> (\<exists>dirKey sz modified st dt.
              msg = DirStatsMsg dirKey sz modified st dt
              \<and> dirStatsCache s' = (dirStatsCache s)(dirKey \<mapsto>
                   \<lparr>statsSize = sz, statsLastModified = modified, SizeTimeout = st,
                    DateTimeout = dt\<rparr>))"
    by (intro impI) (rule Update_cache)
  from A B show ?thesis by (rule conjI)
qed

text \<open>A listing with the directory \<open>docs\<close>, then the statistics of \<open>docs\<close> computed on the
  sample store, where the size arrives in time and the date does not.\<close>

definition docsListed :: Model where
  "docsListed =
     (NewModel ''b'')\<lparr>objects := [\<lparr>Key = ''docs'', Size = 0, LastModified = [], IsDir = True\<rparr>],
        loading := False\<rparr>"

definition docsStats :: DirStats where
  "docsStats = \<lparr>statsSize = 3, statsLastModified = ''N/A'', SizeTimeout = False,
                 DateTimeout = True\<rparr>"

theorem stats_cache_records_witness:
  "reachable (docsListed\<lparr>dirStatsCache := [''docs'' \<mapsto> docsStats]\<rparr>)
   \<and> fst (calculateDirStats sampleStore docsListed [] ''docs'' Answer Timer) =
       DirStatsMsg ''docs'' 3 ''N/A'' False True
   \<and> Update docsListed (DirStatsMsg ''docs'' 3 ''N/A'' False True) =
       Some (docsListed\<lparr>dirStatsCache := [''docs'' \<mapsto> docsStats]\<rparr>, [])
   \<and> (\<exists>be c tr sizeRace dateRace.
          fst (calculateDirStats be c tr ''docs'' sizeRace dateRace) =
            DirStatsMsg ''docs'' 3 ''N/A'' False True)"
proof -
  have r0: "reachable (NewModel ''b'')" by (rule reachable.init)
  have d1: "delivered (ObjectsLoadedMsg
      [\<lparr>Key = ''docs'', Size = 0, LastModified = [], IsDir = True\<rparr>] None)"
    by (rule delivered.other) simp
  have u1: "Update (NewModel ''b'') (ObjectsLoadedMsg
      [\<lparr>Key = ''docs'', Size = 0, LastModified = [], IsDir = True\<rparr>] None)
      = Some (docsListed, [CalculateDirStats docsListed ''docs''])"
    by (simp add: docsListed_def NewModel_def Let_def uncachedDirs_def)
  have r1: "reachable docsListed" using r0 d1 u1 by (rule reachable.step)
  have c: "fst (calculateDirStats sampleStore docsListed [] ''docs'' Answer Timer) =
       DirStatsMsg ''docs'' 3 ''N/A'' False True"
    by (simp add: calculateDirStats_def ListObjects_def sampleStore_def withSlash_def
          HasSuffix_def TrimSuffix_def totalSize_def Let_def)
  have d2: "delivered (DirStatsMsg ''docs'' 3 ''N/A'' False True)"
    using delivered.stats [of sampleStore docsListed "[]" "''docs''" Answer Timer]
    by (simp only: c)
  have u2: "Update docsListed (DirStatsMsg ''docs'' 3 ''N/A'' False True) =
       Some (docsListed\<lparr>dirStatsCache := [''docs'' \<mapsto> docsStats]\<rparr>, [])"
    by (simp add: docsListed_def NewModel_def docsStats_def)
  have r2: "reachable (docsListed\<lparr>dirStatsCache := [''docs'' \<mapsto> docsStats]\<rparr>)"
    using r1 d2 u2 by (rule reachable.step)
  have l: "dirStatsCache (docsListed\<lparr>dirStatsCache := [''docs'' \<mapsto> docsStats]\<rparr>) ''docs''
           = Some docsStats"
    by simp
  have fields: "statsSize docsStats = 3" "statsLastModified docsStats = ''N/A''"
    "SizeTimeout docsStats = False" "DateTimeout docsStats = True"
    by (simp_all add: docsStats_def)
  from stats_cache_records [where m = "docsListed\<lparr>dirStatsCache := [''docs'' \<mapsto> docsStats]\<rparr>"
        and k = "''docs''" and entry = docsStats and s = docsListed
        and msg = "DirStatsMsg ''docs'' 3 ''N/A'' False True"
        and s' = "docsListed\<lparr>dirStatsCache := [''docs'' \<mapsto> docsStats]\<rparr>" and cs = "[]"]
    r2 l
  have "\<exists>be c tr sizeRace dateRace.
          fst (calculateDirStats be c tr ''docs'' sizeRace dateRace) =
            DirStatsMsg ''docs'' 3 ''N/A'' False True"
    by (simp only: fields)
  with r2 c u2 show ?thesis by (intro conjI)
qed


section \<open>The scroll window\<close>

lemma updateScroll_nonneg: "0 \<le> scrollOffset (updateScroll m)"
  by (simp add: updateScroll_def Let_def)

lemma availableHeight_updateScroll [simp]: "availableHeight (updateScroll m) = availableHeight m"
  by (simp add: availableHeight_def)

lemma availableHeight_cursor [simp]: "availableHeight (m\<lparr>cursor := c\<rparr>) = availableHeight m"
  by (simp add: availableHeight_def)

lemma updateScroll_window:
  assumes "0 \<le> cursor m" and "cursor m < int (length (objects m))"
  shows "scrollOffset (updateScroll m) \<le> cursor m
         \<and> cursor m < scrollOffset (updateScroll m) + availableHeight m"
proof -
  have h: "5 \<le> availableHeight m" by (simp add: availableHeight_def)
  from assms have "length (objects m) \<noteq> 0" by auto
  with assms h show ?thesis
    unfolding updateScroll_def Let_def by (simp split: if_splits)
qed

lemma pageSize_pos: "1 \<le> pageSize m"
  by (simp add: pageSize_def)

lemma updateBrowser_up:
  "k = ''up'' \<or> k = ''k'' \<Longrightarrow>
     updateBrowser m k =
       Some (if cursor m > 0 then updateScroll (m\<lparr>cursor := cursor m - 1\<rparr>) else m, [])"
  by (elim disjE; simp add: updateBrowser_def)

lemma updateBrowser_down:
  "k = ''down'' \<or> k = ''j'' \<Longrightarrow>
     updateBrowser m k =
       Some (if cursor m < int (length (objects m)) - 1
             then updateScroll (m\<lparr>cursor := cursor m + 1\<rparr>) else m, [])"
  by (elim disjE; simp add: updateBrowser_def)

lemma updateBrowser_jump:
  "updateBrowser m ''g'' =
     Some (if length (objects m) > 0 then updateScroll (m\<lparr>cursor := 0\<rparr>) else m, [])"
  "updateBrowser m ''G'' =
     Some (if length (objects m) > 0
           then updateScroll (m\<lparr>cursor := int (length (objects m)) - 1\<rparr>) else m, [])"
  "updateBrowser m ''ctrl+d'' =
     Some (if length (objects m) > 0 then
             updateScroll (m\<lparr>cursor :=
               (if cursor m + pageSize m \<ge> int (length (objects m))
                then int (length (objects m)) - 1 else cursor m + pageSize m)\<rparr>)
           else m, [])"
  "updateBrowser m ''ctrl+u'' =
     Some (if length (objects m) > 0 then
             updateScroll (m\<lparr>cursor :=
               (if cursor m - pageSize m < 0 then 0 else cursor m - pageSize m)\<rparr>)
           else m, [])"
  by (simp_all add: updateBrowser_def)

lemma same_result: "r = Some (a, b) \<Longrightarrow> r = Some (a', b') \<Longrightarrow> a = a'"
  by simp

lemma browser_move_shape:
  assumes u: "updateBrowser m k = Some (m', cs)"
    and lo: "0 \<le> cursor m" and hi: "cursor m < int (length (objects m))"
    and key: "(k = ''up'' \<or> k = ''k'' \<or> k = ''down'' \<or> k = ''j'') \<and> cursor m' \<noteq> cursor m
              \<or> k = ''g'' \<or> k = ''G'' \<or> k = ''ctrl+d'' \<or> k = ''ctrl+u''"
  shows "\<exists>c. 0 \<le> c \<and> c < int (length (objects m)) \<and> m' = updateScroll (m\<lparr>cursor := c\<rparr>)"
proof -
  from hi lo have ne: "length (objects m) > 0" by auto
  have p: "1 \<le> pageSize m" by (rule pageSize_pos)
  consider (up) "k = ''up'' \<or> k = ''k''" "cursor m' \<noteq> cursor m"
    | (down) "k = ''down'' \<or> k = ''j''" "cursor m' \<noteq> cursor m"
    | (first) "k = ''g''" | (last) "k = ''G''" | (pgdn) "k = ''ctrl+d''" | (pgup) "k = ''ctrl+u''"
    using key by argo
  then show ?thesis
  proof cases
    case up
    have eq: "m' = (if cursor m > 0 then updateScroll (m\<lparr>cursor := cursor m - 1\<rparr>) else m)"
      using u updateBrowser_up [OF up(1)] by (rule same_result)
    have pos: "cursor m > 0"
    proof (rule ccontr)
      assume "\<not> cursor m > 0"
      from eq [unfolded if_not_P [OF this]] up(2) show False by blast
    qed
    from eq [unfolded if_P [OF pos]] pos hi show ?thesis
      by (intro exI [of _ "cursor m - 1"] conjI) auto
  next
    case down
    have eq: "m' = (if cursor m < int (length (objects m)) - 1
                    then updateScroll (m\<lparr>cursor := cursor m + 1\<rparr>) else m)"
      using u updateBrowser_down [OF down(1)] by (rule same_result)
    have below: "cursor m < int (length (objects m)) - 1"
    proof (rule ccontr)
      assume "\<not> cursor m < int (length (objects m)) - 1"
      from eq [unfolded if_not_P [OF this]] down(2) show False by blast
    qed
    from eq [unfolded if_P [OF below]] below lo show ?thesis
      by (intro exI [of _ "cursor m + 1"] conjI) auto
  next
    case first
    have "m' = (if length (objects m) > 0 then updateScroll (m\<lparr>cursor := 0\<rparr>) else m)"
      using u [unfolded first] updateBrowser_jump(1) by (rule same_result)
    from this [unfolded if_P [OF ne]] ne show ?thesis
      by (intro exI [of _ 0] conjI) auto
  next
    case last
    have "m' = (if length (objects m) > 0
                then updateScroll (m\<lparr>cursor := int (length (objects m)) - 1\<rparr>) else m)"
      using u [unfolded last] updateBrowser_jump(2) by (rule same_result)
    from this [unfolded if_P [OF ne]] ne show ?thesis
      by (intro exI [of _ "int (length (objects m)) - 1"] conjI) auto
  next
    case pgdn
    let ?c = "if cursor m + pageSize m \<ge> int (length (objects m))
              then int (length (objects m)) - 1 else cursor m + pageSize m"
    have "m' = (if length (objects m) > 0 then updateScroll (m\<lparr>cursor := ?c\<rparr>) else m)"
      using u [unfolded pgdn] updateBrowser_jump(3) by (rule same_result)
    then have "m' = updateScroll (m\<lparr>cursor := ?c\<rparr>)"
      unfolding if_P [OF ne] .
    moreover from ne lo p have "0 \<le> ?c" and "?c < int (length (objects m))" by auto
    ultimately show ?thesis by blast
  next
    case pgup
    let ?c = "if cursor m - pageSize m < 0 then 0 else cursor m - pageSize m"
    have "m' = (if length (objects m) > 0 then updateScroll (m\<lparr>cursor := ?c\<rparr>) else m)"
      using u [unfolded pgup] updateBrowser_jump(4) by (rule same_result)
    then have "m' = updateScroll (m\<lparr>cursor := ?c\<rparr>)"
      unfolding if_P [OF ne] .
    moreover from ne hi p have "0 \<le> ?c" and "?c < int (length (objects m))" by auto
    ultimately show ?thesis by blast
  qed
qed

lemma browser_move_window:
  assumes "updateBrowser m k = Some (m', cs)"
    and "0 \<le> cursor m" and "cursor m < int (length (objects m))"
    and "(k = ''up'' \<or> k = ''k'' \<or> k = ''down'' \<or> k = ''j'') \<and> cursor m' \<noteq> cursor m
         \<or> k = ''g'' \<or> k = ''G'' \<or> k = ''ctrl+d'' \<or> k = ''ctrl+u''"
  shows "0 \<le> cursor m' \<and> cursor m' < int (length (objects m'))
         \<and> scrollOffset m' \<le> cursor m' \<and> cursor m' < scrollOffset m' + availableHeight m'
         \<and> 0 \<le> scrollOffset m'"
proof -
  from browser_move_shape [OF assms] obtain c where c: "0 \<le> c" "c < int (length (objects m))"
    and m': "m' = updateScroll (m\<lparr>cursor := c\<rparr>)"
    by blast
  from c have "0 \<le> cursor (m\<lparr>cursor := c\<rparr>)"
    and "cursor (m\<lparr>cursor := c\<rparr>) < int (length (objects (m\<lparr>cursor := c\<rparr>)))"
    by simp_all
  from updateScroll_window [OF this] updateScroll_nonneg [of "m\<lparr>cursor := c\<rparr>"] c m'
  show ?thesis by simp
qed

lemma browser_still:
  assumes "updateBrowser m k = Some (m', cs)"
    and "k = ''up'' \<or> k = ''k'' \<or> k = ''down'' \<or> k = ''j''" and "cursor m' = cursor m"
  shows "m' = m"
proof -
  from assms(2) consider "k = ''up'' \<or> k = ''k''" | "k = ''down'' \<or> k = ''j''" by argo
  then show ?thesis
  proof cases
    case 1
    have eq: "m' = (if cursor m > 0 then updateScroll (m\<lparr>cursor := cursor m - 1\<rparr>) else m)"
      using assms(1) updateBrowser_up [OF 1] by (rule same_result)
    show ?thesis
    proof (cases "cursor m > 0")
      case True
      from eq [unfolded if_P [OF True]] have "cursor m' = cursor m - 1" by simp
      with assms(3) show ?thesis by simp
    next
      case False
      from eq [unfolded if_not_P [OF False]] show ?thesis .
    qed
  next
    case 2
    have eq: "m' = (if cursor m < int (length (objects m)) - 1
                    then updateScroll (m\<lparr>cursor := cursor m + 1\<rparr>) else m)"
      using assms(1) updateBrowser_down [OF 2] by (rule same_result)
    show ?thesis
    proof (cases "cursor m < int (length (objects m)) - 1")
      case True
      from eq [unfolded if_P [OF True]] have "cursor m' = cursor m + 1" by simp
      with assms(3) show ?thesis by simp
    next
      case False
      from eq [unfolded if_not_P [OF False]] show ?thesis .
    qed
  qed
qed

lemma updateBrowser_scroll:
  "updateBrowser m k = Some (m', cs) \<Longrightarrow> 0 \<le> scrollOffset m \<Longrightarrow> 0 \<le> scrollOffset m'"
  unfolding updateBrowser_def Let_def
  by (clarsimp simp: updateScroll_nonneg split: if_splits option.splits)

lemma updatePreview_scroll:
  "updatePreview m k = Some (m', cs) \<Longrightarrow> scrollOffset m' = scrollOffset m"
  unfolding updatePreview_def by (clarsimp split: if_splits)

lemma updateHelp_scroll:
  "updateHelp m k = Some (m', cs) \<Longrightarrow> scrollOffset m' = scrollOffset m"
  unfolding updateHelp_def by (clarsimp split: if_splits)

lemma updateUpload_scroll:
  "updateUpload m k = Some (m', cs) \<Longrightarrow> scrollOffset m' = scrollOffset m"
  unfolding updateUpload_def by (clarsimp split: if_splits option.splits)

lemma updateRename_scroll:
  "updateRename m k = Some (m', cs) \<Longrightarrow> scrollOffset m' = scrollOffset m"
  unfolding updateRename_def Let_def
  by (clarsimp split: if_splits option.splits dest!: editRename_frame)

lemma updateConfirm_scroll:
  "updateConfirm m k = Some (m', cs) \<Longrightarrow> scrollOffset m' = scrollOffset m"
  unfolding updateConfirm_def Let_def by (clarsimp split: if_splits)

lemma Update_scroll:
  assumes "Update m msg = Some (m', cs)" and "0 \<le> scrollOffset m"
  shows "0 \<le> scrollOffset m'"
proof (cases msg)
  case (KeyMsg k)
  with assms show ?thesis
    using updateBrowser_scroll [of m k m' cs] updatePreview_scroll [of m k m' cs]
      updateHelp_scroll [of m k m' cs] updateUpload_scroll [of m k m' cs]
      updateRename_scroll [of m k m' cs] updateConfirm_scroll [of m k m' cs]
    by (cases "viewMode m") auto
qed (use assms in \<open>auto simp: Let_def split: option.splits if_splits\<close>)

lemma reachable_scroll: "reachable m \<Longrightarrow> 0 \<le> scrollOffset m"
proof (induction rule: reachable.induct)
  case (init b)
  show ?case by (simp add: NewModel_def)
next
  case (step m msg m' cmds)
  from step.hyps(3) step.IH show ?case by (rule Update_scroll)
qed

text \<open>
  Claim C2, as the code has it. \<open>updateScroll\<close> runs when \<open>up\<close> or \<open>down\<close> moves the
  cursor and on \<open>g\<close>, \<open>G\<close>, \<open>ctrl+d\<close>, \<open>ctrl+u\<close> with a listing that is not empty. After
  such a key in Browser mode, from a state whose cursor is an index of the listing, the
  cursor is an index of the listing, \<open>scrollOffset \<le> cursor < scrollOffset + availableHeight\<close>
  (whatever the length of the listing) and \<open>scrollOffset \<ge> 0\<close>. An \<open>up\<close> or \<open>down\<close>
  that does not move the cursor leaves the whole state as it was, the scroll offset
  included. In every reachable state \<open>scrollOffset \<ge> 0\<close>.
\<close>

theorem scroll_window:
  "(viewMode m = ViewBrowser \<and> Update m (KeyMsg k) = Some (m', cs)
      \<and> 0 \<le> cursor m \<and> cursor m < int (length (objects m))
      \<and> ((k = ''up'' \<or> k = ''k'' \<or> k = ''down'' \<or> k = ''j'') \<and> cursor m' \<noteq> cursor m
          \<or> k = ''g'' \<or> k = ''G'' \<or> k = ''ctrl+d'' \<or> k = ''ctrl+u'') \<longrightarrow>
      0 \<le> cursor m' \<and> cursor m' < int (length (objects m'))
      \<and> scrollOffset m' \<le> cursor m' \<and> cursor m' < scrollOffset m' + availableHeight m'
      \<and> 0 \<le> scrollOffset m')
   \<and> (viewMode m = ViewBrowser \<and> Update m (KeyMsg k) = Some (m', cs)
      \<and> (k = ''up'' \<or> k = ''k'' \<or> k = ''down'' \<or> k = ''j'') \<and> cursor m' = cursor m \<longrightarrow>
      m' = m)
   \<and> (reachable m \<longrightarrow> 0 \<le> scrollOffset m)"
proof -
  have A: "viewMode m = ViewBrowser \<and> Update m (KeyMsg k) = Some (m', cs)
      \<and> 0 \<le> cursor m \<and> cursor m < int (length (objects m))
      \<and> ((k = ''up'' \<or> k = ''k'' \<or> k = ''down'' \<or> k = ''j'') \<and> cursor m' \<noteq> cursor m
          \<or> k = ''g'' \<or> k = ''G'' \<or> k = ''ctrl+d'' \<or> k = ''ctrl+u'') \<longrightarrow>
      0 \<le> cursor m' \<and> cursor m' < int (length (objects m'))
      \<and> scrollOffset m' \<le> cursor m' \<and> cursor m' < scrollOffset m' + availableHeight m'
      \<and> 0 \<le> scrollOffset m'"
  proof (intro impI, elim conjE)
    assume "viewMode m = ViewBrowser" "Update m (KeyMsg k) = Some (m', cs)"
    then have "updateBrowser m k = Some (m', cs)" by simp
    moreover assume "0 \<le> cursor m" "cursor m < int (length (objects m))"
      "(k = ''up'' \<or> k = ''k'' \<or> k = ''down'' \<or> k = ''j'') \<and> cursor m' \<noteq> cursor m
          \<or> k = ''g'' \<or> k = ''G'' \<or> k = ''ctrl+d'' \<or> k = ''ctrl+u''"
    ultimately show "0 \<le> cursor m' \<and> cursor m' < int (length (objects m'))
      \<and> scrollOffset m' \<le> cursor m' \<and> cursor m' < scrollOffset m' + availableHeight m'
      \<and> 0 \<le> scrollOffset m'"
      by (rule browser_move_window)
  qed
  have B: "viewMode m = ViewBrowser \<and> Update m (KeyMsg k) = Some (m', cs)
      \<and> (k = ''up'' \<or> k = ''k'' \<or> k = ''down'' \<or> k = ''j'') \<and> cursor m' = cursor m \<longrightarrow>
      m' = m"
  proof (intro impI, elim conjE)
    assume "viewMode m = ViewBrowser" "Update m (KeyMsg k) = Some (m', cs)"
    then have "updateBrowser m k = Some (m', cs)" by simp
    moreover assume "k = ''up'' \<or> k = ''k'' \<or> k = ''down'' \<or> k = ''j''" "cursor m' = cursor m"
    ultimately show "m' = m" by (rule browser_still)
  qed
  have C: "reachable m \<longrightarrow> 0 \<le> scrollOffset m"
    using reachable_scroll by blast
  from A B C show ?thesis by (intro conjI)
qed

text \<open>Six files in a window of six rows; \<open>G\<close> goes to the last one.\<close>

definition sixFiles :: "S3Object list" where
  "sixFiles =
     map (\<lambda>key. \<lparr>Key = key, Size = 1, LastModified = ''2024-01-01 10:00:00'', IsDir = False\<rparr>)
       [''a'', ''b'', ''c'', ''d'', ''e'', ''f'']"

definition listedSix :: Model where
  "listedSix = (NewModel ''b'')\<lparr>objects := sixFiles, loading := False, width := 80, height := 14\<rparr>"

theorem scroll_window_witness:
  "Update listedSix (KeyMsg ''G'') = Some (listedSix\<lparr>cursor := 5, scrollOffset := 0\<rparr>, [])
   \<and> availableHeight (listedSix\<lparr>cursor := 5, scrollOffset := 0\<rparr>) = 6
   \<and> cursor (listedSix\<lparr>cursor := 5, scrollOffset := 0\<rparr>) = 5
   \<and> scrollOffset (listedSix\<lparr>cursor := 5, scrollOffset := 0\<rparr>) = 0"
proof -
  have u: "Update listedSix (KeyMsg ''G'') = Some (listedSix\<lparr>cursor := 5, scrollOffset := 0\<rparr>, [])"
    by (simp add: listedSix_def NewModel_def sixFiles_def updateBrowser_def updateScroll_def
          availableHeight_def Let_def)
  have h: "viewMode listedSix = ViewBrowser" "0 \<le> cursor listedSix"
    "cursor listedSix < int (length (objects listedSix))"
    by (simp_all add: listedSix_def NewModel_def sixFiles_def)
  from scroll_window [where m = listedSix and k = "''G''"
      and m' = "listedSix\<lparr>cursor := 5, scrollOffset := 0\<rparr>" and cs = "[]"] u h
  have "scrollOffset (listedSix\<lparr>cursor := 5, scrollOffset := 0\<rparr>)
          \<le> cursor (listedSix\<lparr>cursor := 5, scrollOffset := 0\<rparr>)"
    by simp
  with u show ?thesis
    by (simp add: availableHeight_def listedSix_def NewModel_def)
qed

text \<open>
  The claim as stated fails for a key that does not move the cursor: with the cursor on
  the last of six entries, the window shrinks from six rows to five, and \<open>down\<close> then
  changes nothing. The cursor, 5, is not below \<open>scrollOffset + availableHeight = 0 + 5\<close>,
  with six entries for five rows.
\<close>

definition shrunk :: Model where
  "shrunk = (NewModel ''b'')\<lparr>objects := sixFiles, cursor := 5, loading := False, width := 80,
               height := 13\<rparr>"

theorem scroll_window_counterexample:
  "run (NewModel ''b'')
     [WindowSizeMsg 80 14, ObjectsLoadedMsg sixFiles None, KeyMsg ''G'', WindowSizeMsg 80 13,
      KeyMsg ''down''] = Some shrunk
   \<and> viewMode shrunk = ViewBrowser
   \<and> availableHeight shrunk \<le> int (length (objects shrunk))
   \<and> cursor shrunk = 5 \<and> scrollOffset shrunk = 0 \<and> availableHeight shrunk = 5
   \<and> \<not> cursor shrunk < scrollOffset shrunk + availableHeight shrunk"
  by (simp add: shrunk_def NewModel_def sixFiles_def updateBrowser_def updateScroll_def
        availableHeight_def uncachedDirs_def Let_def)

section \<open>The cursor after the upload picker\<close>

definition pickerItems :: "LocalItem list" where
  "pickerItems =
     [\<lparr>Name = ''..'', itemIsDir = True, itemSize = 0\<rparr>,
      \<lparr>Name = ''src'', itemIsDir = True, itemSize = 0\<rparr>,
      \<lparr>Name = ''a.txt'', itemIsDir = False, itemSize = 1\<rparr>,
      \<lparr>Name = ''b.txt'', itemIsDir = False, itemSize = 2\<rparr>]"

definition strayCursor :: Model where
  "strayCursor =
     (NewModel ''b'')\<lparr>objects := oneFile, cursor := 1, loading := False,
        localItems := pickerItems, localPath := ''.''\<rparr>"

text \<open>
  Claim C3 asks that in Browser mode the cursor is an index of the listing in every
  reachable state. The cursor is one field for the listing and for the upload picker:
  \<open>localFilesLoadedMsg\<close> and \<open>objectsLoadedMsg\<close> set it to 0, but \<open>esc\<close> in the picker
  returns to Browser mode with the cursor where the picker left it. With one object
  listed and four local entries, two \<open>down\<close> in the picker and \<open>esc\<close> leave cursor 2 in
  Browser mode; \<open>up\<close> makes it 1, still not an index of the listing of length 1, and
  \<open>enter\<close> then reads \<open>m.objects[1]\<close>: a panic. (From a cursor that is an index of the
  listing, \<open>up\<close> and \<open>down\<close> do keep it one: \<open>browser_move_window\<close>, \<open>browser_still\<close>.)
\<close>

theorem cursor_outside_listing:
  "run (NewModel ''b'')
     [ObjectsLoadedMsg oneFile None, KeyMsg ''u'', LocalFilesLoadedMsg pickerItems ''.'' None,
      KeyMsg ''down'', KeyMsg ''down'', KeyMsg ''esc'', KeyMsg ''up''] = Some strayCursor
   \<and> viewMode strayCursor = ViewBrowser
   \<and> length (objects strayCursor) = 1 \<and> cursor strayCursor = 1
   \<and> Update strayCursor (KeyMsg ''enter'') = None"
  by (simp add: strayCursor_def NewModel_def oneFile_def pickerItems_def updateBrowser_def
        updateUpload_def updateScroll_def availableHeight_def uncachedDirs_def selected_def Let_def)

text \<open>The messages of that run are ones the program produces: \<open>u\<close> dispatches the local
  listing of \<open>.\<close>, and on the sample store's directory that listing is the one above.\<close>

lemma picker_dispatched:
  "Update ((NewModel ''b'')\<lparr>objects := oneFile, loading := False\<rparr>) (KeyMsg ''u'') =
     Some ((NewModel ''b'')\<lparr>objects := oneFile, loading := False\<rparr>,
           [LoadLocalFiles ((NewModel ''b'')\<lparr>objects := oneFile, loading := False\<rparr>) ''.''])"
  "fst (loadLocalFiles sampleStore ''.'' []) = LocalFilesLoadedMsg pickerItems ''.'' None"
  by (simp_all add: NewModel_def updateBrowser_def loadLocalFiles_def sampleStore_def HasPrefix_def
        sort_Slice_def localLess_def pickerItems_def)


end
